theory Spec2Isabelle
  imports Main
begin

section \<open>Values passed through the query builder\<close>

text \<open>
  The Go code passes operands around as \<^verbatim>\<open>interface{}\<close> values and inspects them with
  \<^verbatim>\<open>reflect\<close>. The embedding keeps what the code looks at: whether the value is a pointer
  (and which address it holds), whether it is nil, and whether it is one of the
  \<^verbatim>\<open>filters.SqlWrapper\<close> / \<^verbatim>\<open>filters.MultiSqlWrapper\<close> values that wrap other operands.
  \<^item> \<open>Ptr a\<close>: a non-nil pointer holding address \<open>a\<close> (the address of a struct field);
  \<^item> \<open>NilPtr\<close>: a typed nil pointer (its \<^verbatim>\<open>Kind()\<close> is still \<^verbatim>\<open>reflect.Ptr\<close>);
  \<^item> \<open>NilIface\<close>: the nil interface value;
  \<^item> \<open>IntV\<close>, \<open>StrV\<close>: non-pointer values, used as literals;
  \<^item> \<open>Wrapper f v\<close>, \<open>MultiWrapper f vs\<close>: wrapper values with their actual value(s).
\<close>

datatype val =
    Ptr nat
  | NilPtr
  | NilIface
  | IntV int
  | StrV string
  | Wrapper string val
  | MultiWrapper string "val list"

fun isPtrKind :: "val \<Rightarrow> bool" where
  "isPtrKind (Ptr a) = True"
| "isPtrKind NilPtr = True"
| "isPtrKind v = False"

text \<open>
  Errors are values. \<open>Error\<close> carries an \<^verbatim>\<open>error\<close> the Go code returns or records;
  \<open>Panic\<close> is a run-time panic (the text names the panicking call); \<open>OutOfFuel\<close> is the
  outcome of a bounded run of a recursion that has not returned within its bound.
\<close>

datatype err =
    NoMatchingField nat
      \<comment> \<open>\<^verbatim>\<open>gorp: Cannot find a field matching the passed in pointer %d (value %v)\<close>\<close>
  | TransientColumn
      \<comment> \<open>\<^verbatim>\<open>gorp: Cannot run queries against transient columns\<close>\<close>
  | TargetNotPointerToStruct
      \<comment> \<open>\<^verbatim>\<open>A query target must be a pointer to struct\<close>\<close>
  | TargetNotPointer
      \<comment> \<open>\<^verbatim>\<open>All query targets must be pointer types\<close>\<close>
  | NoStructFound
      \<comment> \<open>\<^verbatim>\<open>gorp: Cannot create query plan - no struct found to map to\<close>\<close>
  | NoMappableFields
      \<comment> \<open>\<^verbatim>\<open>No fields in the target struct are mappable.\<close>\<close>
  | NoReferences
      \<comment> \<open>\<^verbatim>\<open>No references found to join with\<close>\<close>
  | External string
      \<comment> \<open>an error returned by a collaborator: the metadata provider, the transport, the cache\<close>
  | NoFieldForAlias string
      \<comment> \<open>\<^verbatim>\<open>Cannot find field matching alias %s\<close>\<close>
  | CannotConvert
      \<comment> \<open>\<^verbatim>\<open>Cannot convert type %v to type %v\<close>\<close>

datatype failure = Error err | Panic string | OutOfFuel

text \<open>
  A \<^verbatim>\<open>reflect.Type\<close>, as far as the code distinguishes kinds: a struct type (with an
  identity, by which the metadata provider knows its table and \<^verbatim>\<open>reflect\<close> its fields),
  pointer, slice and array types, and any other type.
\<close>

datatype rtype = TStruct nat | TPtr rtype | TSlice rtype | TArray rtype | TOther

section \<open>Statements and bind-variable substitution\<close>

text \<open>
  \<^verbatim>\<open>const BindVarPlaceholder = "%s"\<close>, and
  \<^verbatim>\<open>type Statement struct { query bytes.Buffer; args []interface{} }\<close>.
\<close>

definition BindVarPlaceholder :: string where
  "BindVarPlaceholder = ''%s''"

record Statement =
  query :: string
  args :: "val list"

text \<open>
  \<^verbatim>\<open>strings.Replace(s, old, new, 1)\<close>: the first (leftmost) occurrence of \<open>old\<close> in \<open>s\<close> is
  replaced by \<open>new\<close>; \<open>s\<close> is returned as it is when \<open>old\<close> does not occur. An empty
  \<open>old\<close> matches at the start of the string.
\<close>

fun Replace1 :: "string \<Rightarrow> string \<Rightarrow> string \<Rightarrow> string" where
  "Replace1 [] old new = (if old = [] then new else [])"
| "Replace1 (c # cs) old new =
     (if take (length old) (c # cs) = old then new @ drop (length old) (c # cs)
      else c # Replace1 cs old new)"

text \<open>
  The loop of \<^verbatim>\<open>Statement.Query\<close> over its local variable \<^verbatim>\<open>query\<close>:
  \<^verbatim>\<open>for _, v := range bindVars { query = strings.Replace(query, BindVarPlaceholder, v, 1) }\<close>.
  Every iteration searches again from the start of the current text.
\<close>

fun QueryText :: "string \<Rightarrow> string list \<Rightarrow> string" where
  "QueryText q [] = q"
| "QueryText q (v # bindVars) = QueryText (Replace1 q BindVarPlaceholder v) bindVars"

text \<open>
  \<^verbatim>\<open>func (s *Statement) Query(bindVars ...string) string\<close>. The method has a pointer
  receiver; the second component is the statement after the call.
\<close>

definition Statement_Query :: "Statement \<Rightarrow> string list \<Rightarrow> string \<times> Statement" where
  "Statement_Query s bindVars = (QueryText (query s) bindVars, s)"

definition Statement_Args :: "Statement \<Rightarrow> val list" where
  "Statement_Args s = args s"

subsection \<open>What the specification says about substitution\<close>

text \<open>
  The reading of the specification: one pass over the text from left to right, the i-th
  placeholder occurrence being replaced by the i-th bind variable, the remaining
  occurrences staying. \<open>count_placeholders\<close> counts the occurrences of the token (they
  cannot overlap).
\<close>

fun substitute_in_order :: "string \<Rightarrow> string list \<Rightarrow> string" where
  "substitute_in_order q [] = q"
| "substitute_in_order [] (v # vs) = []"
| "substitute_in_order [c] (v # vs) = [c]"
| "substitute_in_order (c # d # cs) (v # vs) =
     (if [c, d] = BindVarPlaceholder then v @ substitute_in_order cs vs
      else c # substitute_in_order (d # cs) (v # vs))"

fun count_placeholders :: "string \<Rightarrow> nat" where
  "count_placeholders [] = 0"
| "count_placeholders [c] = 0"
| "count_placeholders (c # d # cs) =
     (if [c, d] = BindVarPlaceholder then Suc (count_placeholders cs)
      else count_placeholders (d # cs))"

text \<open>
  A bind variable that cannot create a new occurrence of the placeholder where it is put:
  it is not empty, holds no \<open>%\<close> and does not start with \<open>s\<close>. The bind variables of the
  dialects (\<^verbatim>\<open>?\<close>, \<^verbatim>\<open>$1\<close>, \<^verbatim>\<open>:1\<close>) are of this kind.
\<close>

definition plain_bindvar :: "string \<Rightarrow> bool" where
  "plain_bindvar v = (v \<noteq> [] \<and> CHR ''%'' \<notin> set v \<and> hd v \<noteq> CHR ''s'')"

lemma Replace1_ph_Nil: "Replace1 [] BindVarPlaceholder v = []"
  by (simp add: BindVarPlaceholder_def)

lemma Replace1_ph_single: "Replace1 [c] BindVarPlaceholder v = [c]"
  by (simp add: BindVarPlaceholder_def)

lemma Replace1_ph_Cons2:
  "Replace1 (c # d # cs) BindVarPlaceholder v =
     (if [c, d] = BindVarPlaceholder then v @ cs else c # Replace1 (d # cs) BindVarPlaceholder v)"
  by (simp add: BindVarPlaceholder_def)

declare Replace1.simps [simp del]

lemma substitute_skip:
  "c \<noteq> CHR ''%'' \<Longrightarrow> substitute_in_order (c # r) vs = c # substitute_in_order r vs"
  by (cases vs; cases r) (simp_all add: BindVarPlaceholder_def)

lemma substitute_plain_prefix:
  "CHR ''%'' \<notin> set v \<Longrightarrow> substitute_in_order (v @ r) vs = v @ substitute_in_order r vs"
proof (induction v)
  case Nil
  then show ?case by simp
next
  case (Cons c v)
  then have "c \<noteq> CHR ''%''" by auto
  then show ?case using Cons by (simp add: substitute_skip)
qed

lemma Replace1_head:
  assumes "plain_bindvar v" and "d \<noteq> CHR ''s''"
  shows "\<exists>e t. Replace1 (d # cs) BindVarPlaceholder v = e # t \<and> e \<noteq> CHR ''s''"
proof (cases cs)
  case Nil
  then show ?thesis using assms by (simp add: Replace1_ph_single)
next
  case (Cons c' cs')
  obtain h t where v: "v = h # t" and h: "h \<noteq> CHR ''s''"
    using assms(1) by (cases v) (auto simp: plain_bindvar_def)
  show ?thesis
    unfolding Cons Replace1_ph_Cons2 using assms(2) v h by simp
qed

lemma substitute_Replace1:
  "plain_bindvar v \<Longrightarrow>
   substitute_in_order (Replace1 q BindVarPlaceholder v) vs = substitute_in_order q (v # vs)"
proof (induction q rule: count_placeholders.induct)
  case 1
  then show ?case by (cases vs) (simp_all add: Replace1_ph_Nil)
next
  case (2 c)
  then show ?case by (cases vs) (simp_all add: Replace1_ph_single)
next
  case (3 c d cs)
  show ?case
  proof (cases "[c, d] = BindVarPlaceholder")
    case True
    then show ?thesis using 3(3)
      by (simp add: Replace1_ph_Cons2 substitute_plain_prefix plain_bindvar_def)
  next
    case False
    have IH: "substitute_in_order (Replace1 (d # cs) BindVarPlaceholder v) vs
              = substitute_in_order (d # cs) (v # vs)"
      using 3(2)[OF False 3(3)] .
    show ?thesis
    proof (cases "c = CHR ''%''")
      case True
      then have "d \<noteq> CHR ''s''" using False by (simp add: BindVarPlaceholder_def)
      then obtain e t where et: "Replace1 (d # cs) BindVarPlaceholder v = e # t" "e \<noteq> CHR ''s''"
        using Replace1_head[OF 3(3)] by blast
      have "substitute_in_order (c # e # t) vs = c # substitute_in_order (e # t) vs"
        using et(2) by (cases vs) (simp_all add: BindVarPlaceholder_def)
      then show ?thesis using False IH et(1)
        by (simp add: Replace1_ph_Cons2)
    next
      case cne: False
      show ?thesis using False IH substitute_skip[OF cne]
        by (simp add: Replace1_ph_Cons2)
    qed
  qed
qed

lemma QueryText_substitute:
  "\<forall>v\<in>set bindVars. plain_bindvar v \<Longrightarrow> QueryText q bindVars = substitute_in_order q bindVars"
  by (induction bindVars arbitrary: q) (simp_all add: substitute_Replace1)

lemma count_skip_char:
  "c \<noteq> CHR ''%'' \<Longrightarrow> count_placeholders (c # r) = count_placeholders r"
  by (cases r) (simp_all add: BindVarPlaceholder_def)

lemma count_plain_prefix:
  "CHR ''%'' \<notin> set v \<Longrightarrow> count_placeholders (v @ r) = count_placeholders r"
proof (induction v)
  case Nil
  then show ?case by simp
next
  case (Cons a v)
  then have "a \<noteq> CHR ''%''" by auto
  then show ?case using Cons by (simp add: count_skip_char)
qed

lemma substitute_head:
  assumes "plain_bindvar v" and "d \<noteq> CHR ''s''"
  shows "\<exists>e t. substitute_in_order (d # cs) (v # vs) = e # t \<and> e \<noteq> CHR ''s''"
proof (cases cs)
  case Nil
  then show ?thesis using assms by simp
next
  case (Cons c' cs')
  obtain h t where v: "v = h # t" and h: "h \<noteq> CHR ''s''"
    using assms(1) by (cases v) (auto simp: plain_bindvar_def)
  show ?thesis
    unfolding Cons using assms(2) v h by simp
qed

lemma count_substitute:
  "\<forall>v\<in>set vs. plain_bindvar v \<Longrightarrow>
   count_placeholders (substitute_in_order q vs) = count_placeholders q - length vs"
proof (induction q vs rule: substitute_in_order.induct)
  case (1 q)
  then show ?case by simp
next
  case (2 v vs)
  then show ?case by simp
next
  case (3 c v vs)
  then show ?case by simp
next
  case (4 c d cs v vs)
  have pv: "plain_bindvar v" and pvs: "\<forall>v\<in>set vs. plain_bindvar v"
    using 4(3) by simp_all
  show ?case
  proof (cases "[c, d] = BindVarPlaceholder")
    case True
    then show ?thesis using 4(1)[OF True pvs] pv
      by (simp add: count_plain_prefix plain_bindvar_def)
  next
    case False
    have IH: "count_placeholders (substitute_in_order (d # cs) (v # vs))
              = count_placeholders (d # cs) - length (v # vs)"
      using 4(2)[OF False 4(3)] .
    show ?thesis
    proof (cases "c = CHR ''%''")
      case True
      then have "d \<noteq> CHR ''s''" using False by (simp add: BindVarPlaceholder_def)
      then obtain e t where et: "substitute_in_order (d # cs) (v # vs) = e # t" "e \<noteq> CHR ''s''"
        using substitute_head[OF pv] by blast
      have "count_placeholders (c # e # t) = count_placeholders (e # t)"
        using et(2) by (simp add: BindVarPlaceholder_def)
      then show ?thesis using False IH et(1) by simp
    next
      case cne: False
      show ?thesis using False IH count_skip_char[OF cne] by simp
    qed
  qed
qed

text \<open>
  Claim C10, as amended. For every statement and every list of bind variables none of
  which is empty, holds a \<open>%\<close> or starts with \<open>s\<close>: \<^verbatim>\<open>Statement.Query\<close> returns the text in
  which the i-th placeholder occurrence, in left-to-right order, is replaced by the i-th
  bind variable; one occurrence is consumed per bind variable while occurrences remain,
  so that the occurrences beyond the number of bind variables are still in the returned
  text; and the statement (its stored query and its argument list) is unchanged.
\<close>

theorem Statement_Query_left_to_right:
  assumes "\<forall>v\<in>set bindVars. plain_bindvar v"
  shows "fst (Statement_Query s bindVars) = substitute_in_order (query s) bindVars
       \<and> count_placeholders (fst (Statement_Query s bindVars))
           = count_placeholders (query s) - length bindVars
       \<and> snd (Statement_Query s bindVars) = s"
  using assms
  by (simp add: Statement_Query_def QueryText_substitute count_substitute)

theorem Statement_Query_left_to_right_witness:
  "plain_bindvar ''$1'' \<and> plain_bindvar ''$2''
   \<and> fst (Statement_Query \<lparr>query = ''a=%s and b=%s and c=%s'', args = [IntV 1, IntV 2, IntV 3]\<rparr>
            [''$1'', ''$2'']) = ''a=$1 and b=$2 and c=%s''
   \<and> count_placeholders (fst (Statement_Query
          \<lparr>query = ''a=%s and b=%s and c=%s'', args = [IntV 1, IntV 2, IntV 3]\<rparr> [''$1'', ''$2''])) = 1
   \<and> snd (Statement_Query \<lparr>query = ''a=%s and b=%s and c=%s'', args = [IntV 1, IntV 2, IntV 3]\<rparr>
            [''$1'', ''$2''])
       = \<lparr>query = ''a=%s and b=%s and c=%s'', args = [IntV 1, IntV 2, IntV 3]\<rparr>"
  using Statement_Query_left_to_right
    [of "[''$1'', ''$2'']" "\<lparr>query = ''a=%s and b=%s and c=%s'', args = [IntV 1, IntV 2, IntV 3]\<rparr>"]
  by (simp add: plain_bindvar_def BindVarPlaceholder_def)

text \<open>
  The claim as it is written, for every list of bind variables, fails: a bind variable
  that is itself the placeholder is found again by the next iteration, so the second
  bind variable lands on the first occurrence and the second occurrence is never
  replaced.
\<close>

theorem Statement_Query_rescan_counterexample:
  "fst (Statement_Query \<lparr>query = ''%s %s'', args = []\<rparr> [''%s'', ''X'']) = ''X %s''
   \<and> substitute_in_order ''%s %s'' [''%s'', ''X''] = ''%s X''
   \<and> fst (Statement_Query \<lparr>query = ''%s %s'', args = []\<rparr> [''%s'', ''X''])
       \<noteq> substitute_in_order (query \<lparr>query = ''%s %s'', args = []\<rparr>) [''%s'', ''X'']"
  by (simp add: Statement_Query_def BindVarPlaceholder_def Replace1.simps)

section \<open>The struct column map and the field identity resolver\<close>

text \<open>
  The metadata of the table/column provider (\<^verbatim>\<open>gorp.ColumnMap\<close>, \<^verbatim>\<open>gorp.TableMap\<close>), as far
  as the plans package reads it: the column's name and transience, the index path of its
  struct field, its join alias and prefix, the columns that reference it, and the table a
  foreign-key column points to.
\<close>

datatype ColumnMap = ColumnMap
  (ColumnName: string)
  (Transient: bool)
  (FieldIndex: "nat list")
  (JoinAlias: string)
  (JoinPrefix: string)
  (ReferencedBy: "string list")
  (TargetTable: "TableMap option")
and TableMap = TableMap
  (SchemaName: string)
  (TableName: string)
  (Columns: "ColumnMap list")

text \<open>
  \<^verbatim>\<open>type fieldColumnMap struct\<close>: one entry per mapped struct field. \<open>addr\<close> is the address
  token of the field (the newer mapper names the same member \<^verbatim>\<open>field\<close>); \<open>selectTarget\<close>,
  \<open>prefix\<close> and \<open>doSelect\<close> are the members the newer mapper adds; \<open>colAlias\<close> is the
  member \<^verbatim>\<open>alias\<close>. The members
  \<^verbatim>\<open>parentMap\<close>, \<^verbatim>\<open>parent\<close> and \<^verbatim>\<open>join\<close> are read by none of the functions below and are
  left out. \<^verbatim>\<open>type structColumnMap []fieldColumnMap\<close> is a list of entries.
\<close>

record fieldColumnMap =
  addr :: val
  selectTarget :: val
  column :: ColumnMap
  colAlias :: string
  prefix :: string
  quotedTable :: string
  quotedColumn :: string
  doSelect :: bool

type_synonym structColumnMap = "fieldColumnMap list"

text \<open>
  \<^verbatim>\<open>func (structMap structColumnMap) joinMapForPointer(fieldPtr interface{})\<close>. The loop
  returns the first entry whose address equals the argument. When no entry matches, the
  error message is built from \<^verbatim>\<open>reflect.ValueOf(fieldPtr).Pointer()\<close> and
  \<^verbatim>\<open>reflect.ValueOf(fieldPtr).Elem().Interface()\<close>:
  \<^item> for a non-nil pointer both calls return, and the error is returned;
  \<^item> for a typed nil pointer \<^verbatim>\<open>Elem()\<close> is the zero \<^verbatim>\<open>Value\<close>, on which \<^verbatim>\<open>Interface()\<close>
    panics;
  \<^item> for the nil interface \<^verbatim>\<open>ValueOf\<close> is the zero \<^verbatim>\<open>Value\<close>, on which \<^verbatim>\<open>Pointer()\<close>
    panics; for any other non-pointer value \<^verbatim>\<open>Pointer()\<close> or \<^verbatim>\<open>Elem()\<close> panics.
\<close>

fun joinMapForPointer :: "structColumnMap \<Rightarrow> val \<Rightarrow> failure + fieldColumnMap" where
  "joinMapForPointer [] fieldPtr =
     (case fieldPtr of
        Ptr a \<Rightarrow> Inl (Error (NoMatchingField a))
      | NilPtr \<Rightarrow> Inl (Panic ''reflect: call of reflect.Value.Interface on zero Value'')
      | NilIface \<Rightarrow> Inl (Panic ''reflect: call of reflect.Value.Pointer on zero Value'')
      | _ \<Rightarrow> Inl (Panic ''reflect: call of reflect.Value.Pointer or Elem on non-pointer Value''))"
| "joinMapForPointer (fieldMap # structMap) fieldPtr =
     (if addr fieldMap = fieldPtr then Inr fieldMap else joinMapForPointer structMap fieldPtr)"

text \<open>\<^verbatim>\<open>func (structMap structColumnMap) fieldMapForPointer(fieldPtr interface{})\<close>.\<close>

definition fieldMapForPointer :: "structColumnMap \<Rightarrow> val \<Rightarrow> failure + fieldColumnMap" where
  "fieldMapForPointer structMap fieldPtr =
     (case joinMapForPointer structMap fieldPtr of
        Inl e \<Rightarrow> Inl e
      | Inr m \<Rightarrow> if Transient (column m) then Inl (Error TransientColumn) else Inr m)"

text \<open>\<^verbatim>\<open>LocateColumn\<close> and \<^verbatim>\<open>LocateTableAndColumn\<close>.\<close>

definition LocateColumn :: "structColumnMap \<Rightarrow> val \<Rightarrow> failure + string" where
  "LocateColumn structMap fieldPtr =
     (case fieldMapForPointer structMap fieldPtr of
        Inl e \<Rightarrow> Inl e
      | Inr fieldMap \<Rightarrow> Inr (quotedColumn fieldMap))"

definition LocateTableAndColumn :: "structColumnMap \<Rightarrow> val \<Rightarrow> failure + string" where
  "LocateTableAndColumn structMap fieldPtr =
     (case fieldMapForPointer structMap fieldPtr of
        Inl e \<Rightarrow> Inl e
      | Inr fieldMap \<Rightarrow> Inr (quotedTable fieldMap @ ''.'' @ quotedColumn fieldMap))"

text \<open>
  The address of a field of a live struct is never nil: for such an address that no entry
  holds, both lookups return the unresolved-field error.
\<close>

lemma joinMapForPointer_unregistered:
  "\<forall>m\<in>set structMap. addr m \<noteq> Ptr a \<Longrightarrow>
   joinMapForPointer structMap (Ptr a) = Inl (Error (NoMatchingField a))"
  by (induction structMap) simp_all

lemma fieldMapForPointer_unregistered:
  "\<forall>m\<in>set structMap. addr m \<noteq> Ptr a \<Longrightarrow>
   fieldMapForPointer structMap (Ptr a) = Inl (Error (NoMatchingField a))"
  by (simp add: fieldMapForPointer_def joinMapForPointer_unregistered)

lemma joinMapForPointer_found:
  "joinMapForPointer structMap fieldPtr = Inr m \<Longrightarrow> m \<in> set structMap \<and> addr m = fieldPtr"
  by (induction structMap) (auto split: if_splits val.splits)

text \<open>
  Claim C6. The claim is that the lookup of a pointer no entry holds returns the
  "no matching field" error and never panics, provided the argument is a pointer. A typed
  nil pointer is a pointer and is held by no entry of the map below, and both lookups
  panic on it while they build the error message.
\<close>

theorem joinMapForPointer_nil_pointer_panics:
  "joinMapForPointer
     [\<lparr>addr = Ptr 16, selectTarget = Ptr 16,
       column = ColumnMap ''id'' False [0] [] [] [] None,
       colAlias = ''id'', prefix = [], quotedTable = ''t'', quotedColumn = ''id'', doSelect = True\<rparr>]
     NilPtr
   = Inl (Panic ''reflect: call of reflect.Value.Interface on zero Value'')
   \<and> fieldMapForPointer
     [\<lparr>addr = Ptr 16, selectTarget = Ptr 16,
       column = ColumnMap ''id'' False [0] [] [] [] None,
       colAlias = ''id'', prefix = [], quotedTable = ''t'', quotedColumn = ''id'', doSelect = True\<rparr>]
     NilPtr
   = Inl (Panic ''reflect: call of reflect.Value.Interface on zero Value'')"
  by (simp add: fieldMapForPointer_def)

text \<open>
  Claim C7. For every field pointer that the map resolves to an entry whose column is
  transient, \<^verbatim>\<open>LocateColumn\<close> and \<^verbatim>\<open>LocateTableAndColumn\<close> fail with the transient-column
  error, which is not the unresolved-field error of any address.
\<close>

theorem Locate_transient_column:
  assumes "joinMapForPointer structMap fieldPtr = Inr m" and "Transient (column m)"
  shows "LocateColumn structMap fieldPtr = Inl (Error TransientColumn)
       \<and> LocateTableAndColumn structMap fieldPtr = Inl (Error TransientColumn)
       \<and> (\<forall>a. LocateColumn structMap fieldPtr \<noteq> Inl (Error (NoMatchingField a)))
       \<and> (\<forall>a. LocateTableAndColumn structMap fieldPtr \<noteq> Inl (Error (NoMatchingField a)))"
  using assms by (simp add: LocateColumn_def LocateTableAndColumn_def fieldMapForPointer_def)

theorem Locate_transient_column_witness:
  "joinMapForPointer
     [\<lparr>addr = Ptr 16, selectTarget = Ptr 16,
       column = ColumnMap ''id'' False [0] [] [] [] None,
       colAlias = ''id'', prefix = [], quotedTable = ''t'', quotedColumn = ''id'', doSelect = True\<rparr>,
      \<lparr>addr = Ptr 24, selectTarget = Ptr 24,
       column = ColumnMap ''scratch'' True [1] [] [] [] None,
       colAlias = ''scratch'', prefix = [], quotedTable = ''t'', quotedColumn = ''scratch'',
       doSelect = False\<rparr>]
     (Ptr 24)
   = Inr \<lparr>addr = Ptr 24, selectTarget = Ptr 24,
       column = ColumnMap ''scratch'' True [1] [] [] [] None,
       colAlias = ''scratch'', prefix = [], quotedTable = ''t'', quotedColumn = ''scratch'',
       doSelect = False\<rparr>
   \<and> LocateColumn
     [\<lparr>addr = Ptr 16, selectTarget = Ptr 16,
       column = ColumnMap ''id'' False [0] [] [] [] None,
       colAlias = ''id'', prefix = [], quotedTable = ''t'', quotedColumn = ''id'', doSelect = True\<rparr>,
      \<lparr>addr = Ptr 24, selectTarget = Ptr 24,
       column = ColumnMap ''scratch'' True [1] [] [] [] None,
       colAlias = ''scratch'', prefix = [], quotedTable = ''t'', quotedColumn = ''scratch'',
       doSelect = False\<rparr>]
     (Ptr 24)
   = Inl (Error TransientColumn)
   \<and> LocateTableAndColumn
     [\<lparr>addr = Ptr 16, selectTarget = Ptr 16,
       column = ColumnMap ''id'' False [0] [] [] [] None,
       colAlias = ''id'', prefix = [], quotedTable = ''t'', quotedColumn = ''id'', doSelect = True\<rparr>,
      \<lparr>addr = Ptr 24, selectTarget = Ptr 24,
       column = ColumnMap ''scratch'' True [1] [] [] [] None,
       colAlias = ''scratch'', prefix = [], quotedTable = ''t'', quotedColumn = ''scratch'',
       doSelect = False\<rparr>]
     (Ptr 24)
   = Inl (Error TransientColumn)"
proof -
  let ?cm = "[\<lparr>addr = Ptr 16, selectTarget = Ptr 16,
       column = ColumnMap ''id'' False [0] [] [] [] None,
       colAlias = ''id'', prefix = [], quotedTable = ''t'', quotedColumn = ''id'', doSelect = True\<rparr>,
      \<lparr>addr = Ptr 24, selectTarget = Ptr 24,
       column = ColumnMap ''scratch'' True [1] [] [] [] None,
       colAlias = ''scratch'', prefix = [], quotedTable = ''t'', quotedColumn = ''scratch'',
       doSelect = False\<rparr>]"
  let ?m = "\<lparr>addr = Ptr 24, selectTarget = Ptr 24,
       column = ColumnMap ''scratch'' True [1] [] [] [] None,
       colAlias = ''scratch'', prefix = [], quotedTable = ''t'', quotedColumn = ''scratch'',
       doSelect = False\<rparr>"
  have found: "joinMapForPointer ?cm (Ptr 24) = Inr ?m" by simp
  have transient: "Transient (column ?m)" by simp
  show ?thesis
    using found Locate_transient_column [OF found transient] by simp
qed

section \<open>Dialects, filters and the query plan\<close>

text \<open>
  \<^verbatim>\<open>gorp.Dialect\<close>, as far as the plans package calls it. \<open>NonstandardLimit\<close> is \<open>Some f\<close>
  when the dialect implements \<^verbatim>\<open>interfaces.NonstandardLimiter\<close>, \<open>f\<close> being its
  \<^verbatim>\<open>Limit(bindVar string) string\<close>, and \<open>None\<close> when the type assertion fails.
\<close>

record dialect =
  QuoteField :: "string \<Rightarrow> string"
  QuotedTableForQuery :: "string \<Rightarrow> string \<Rightarrow> string"
  BindVar :: "nat \<Rightarrow> string"
  NonstandardLimit :: "(string \<Rightarrow> string) option"

text \<open>\<^verbatim>\<open>strings.Join(elems, sep)\<close>.\<close>

fun strings_Join :: "string list \<Rightarrow> string \<Rightarrow> string" where
  "strings_Join [] sep = []"
| "strings_Join [s] sep = s"
| "strings_Join (s # t # ss) sep = s @ sep @ strings_Join (t # ss) sep"

text \<open>
  Modelled from the spec: the \<^verbatim>\<open>filters\<close> package is not among the sources; only its use
  by the plans package and the plans package's own \<^verbatim>\<open>referenceFilter\<close> are. A filter has
  the two methods the plans package calls, \<^verbatim>\<open>ActualValues() []interface{}\<close> and
  \<^verbatim>\<open>Where(values ...string) string\<close>. Following the specification (4.3 and the examples
  of section 8) a comparison filter has a left and a right operand and renders as
  \<open>left op right\<close> from the strings it is given for them, and the root of a WHERE clause
  is an AND-list of filters, each rendered from its own share of the strings. The
  operators are the ones the doc comments of \<^verbatim>\<open>Equal\<close> ... \<^verbatim>\<open>GreaterOrEqual\<close> name. A
  wrapper renders as a call of its SQL function around the rendered operand(s).
\<close>

datatype cmpop = OpEqual | OpNotEqual | OpLess | OpLessOrEqual | OpGreater | OpGreaterOrEqual

fun opText :: "cmpop \<Rightarrow> string" where
  "opText OpEqual = '' = ''"
| "opText OpNotEqual = '' != ''"
| "opText OpLess = '' < ''"
| "opText OpLessOrEqual = '' <= ''"
| "opText OpGreater = '' > ''"
| "opText OpGreaterOrEqual = '' >= ''"

datatype sqlFilter =
    ComparisonFilter val cmpop val
  | ReferenceFilter string

definition AndSeparator :: string where
  "AndSeparator = '' AND ''"

definition WrapSql :: "string \<Rightarrow> string \<Rightarrow> string" where
  "WrapSql f sqlValue = f @ ''('' @ sqlValue @ '')''"

definition MultiWrapSql :: "string \<Rightarrow> string list \<Rightarrow> string" where
  "MultiWrapSql f sqlValues = f @ ''('' @ strings_Join sqlValues '', '' @ '')''"

text \<open>
  \<^verbatim>\<open>referenceFilter\<close> is in the sources: \<^verbatim>\<open>ActualValues\<close> returns nil and \<^verbatim>\<open>Where\<close> returns
  the clause. \<^verbatim>\<open>reference(leftTable, leftCol, rightTable, rightCol)\<close> formats the clause
  with \<^verbatim>\<open>"%s.%s = %s.%s"\<close>.
\<close>

fun ActualValues :: "sqlFilter \<Rightarrow> val list" where
  "ActualValues (ComparisonFilter left c right) = [left, right]"
| "ActualValues (ReferenceFilter clause) = []"

fun Where :: "sqlFilter \<Rightarrow> string list \<Rightarrow> string" where
  "Where (ComparisonFilter left c right) vals = strings_Join (take 2 vals) (opText c)"
| "Where (ReferenceFilter clause) vals = clause"

definition reference :: "string \<Rightarrow> string \<Rightarrow> string \<Rightarrow> string \<Rightarrow> sqlFilter" where
  "reference leftTable leftCol rightTable rightCol =
     ReferenceFilter (leftTable @ ''.'' @ leftCol @ '' = '' @ rightTable @ ''.'' @ rightCol)"

text \<open>
  The AND-list: the values of the filters in order, and the renderings of the filters
  joined by the separator, each filter taking as many strings as it has values.
\<close>

fun AndActualValues :: "sqlFilter list \<Rightarrow> val list" where
  "AndActualValues [] = []"
| "AndActualValues (f # fs) = ActualValues f @ AndActualValues fs"

fun AndParts :: "sqlFilter list \<Rightarrow> string list \<Rightarrow> string list" where
  "AndParts [] vals = []"
| "AndParts (f # fs) vals =
     Where f (take (length (ActualValues f)) vals)
       # AndParts fs (drop (length (ActualValues f)) vals)"

definition AndWhere :: "sqlFilter list \<Rightarrow> string list \<Rightarrow> string" where
  "AndWhere fs vals = strings_Join (AndParts fs vals) AndSeparator"

text \<open>
  \<^verbatim>\<open>filters.JoinFilter\<close> with the members the plans package sets (\<^verbatim>\<open>Type\<close>,
  \<^verbatim>\<open>QuotedJoinTable\<close>, \<^verbatim>\<open>QuotedAlias\<close>) and the filters added to its ON clause. Modelled
  from the spec: \<^verbatim>\<open>JoinClause\<close> renders the join type, the table, the alias when there is
  one, and the ON filters as an AND-list.
\<close>

record JoinFilter =
  JoinType :: string
  QuotedJoinTable :: string
  QuotedAlias :: string
  onFilters :: "sqlFilter list"

definition JoinClause :: "JoinFilter \<Rightarrow> string list \<Rightarrow> string" where
  "JoinClause j vals =
     '' '' @ JoinType j @ '' JOIN '' @ QuotedJoinTable j
       @ (if QuotedAlias j = [] then [] else '' AS '' @ QuotedAlias j)
       @ '' ON '' @ AndWhere (onFilters j) vals"

text \<open>
  \<^verbatim>\<open>plan.filters\<close> has the interface type \<^verbatim>\<open>filters.MultiFilter\<close>: it is nil, the
  \<^verbatim>\<open>*filters.AndFilter\<close> that \<^verbatim>\<open>Where()\<close> allocates, or the \<^verbatim>\<open>*filters.JoinFilter\<close> that
  \<^verbatim>\<open>JoinType\<close> allocates.
\<close>

datatype multiFilter =
    NilFilter
  | AndFilter "sqlFilter list"
  | OpenJoin JoinFilter

fun MultiActualValues :: "multiFilter \<Rightarrow> val list" where
  "MultiActualValues NilFilter = []"
| "MultiActualValues (AndFilter fs) = AndActualValues fs"
| "MultiActualValues (OpenJoin j) = AndActualValues (onFilters j)"

fun MultiWhere :: "multiFilter \<Rightarrow> string list \<Rightarrow> string" where
  "MultiWhere NilFilter vals = []"
| "MultiWhere (AndFilter fs) vals = AndWhere fs vals"
| "MultiWhere (OpenJoin j) vals = AndWhere (onFilters j) vals"

text \<open>
  Modelled from the spec: the newer \<^verbatim>\<open>order\<close> type is not among the sources; the plans
  package calls its \<^verbatim>\<open>ActualValue()\<close> and \<^verbatim>\<open>OrderBy(val string) string\<close>.
\<close>

record order =
  fieldOrWrapper :: val
  direction :: string

definition order_OrderBy :: "order \<Rightarrow> string \<Rightarrow> string" where
  "order_OrderBy o' v = (if direction o' = [] then v else v @ '' '' @ direction o')"

text \<open>
  \<^verbatim>\<open>type QueryPlan struct\<close> (the newer generation). \<open>dbDialect\<close> is \<^verbatim>\<open>plan.dbMap.Dialect\<close>;
  \<open>planQuotedTable\<close> is the member \<^verbatim>\<open>quotedTable\<close>; \<open>table\<close> is \<open>None\<close> for the nil pointer
  a plan has when mapping its target failed. \<^verbatim>\<open>limit\<close> and \<^verbatim>\<open>offset\<close> are \<^verbatim>\<open>int64\<close>; the
  code only stores them and compares them with 0, so they are integers here. The
  executor and the cache are collaborators: the finalizing actions below take their
  behaviour as parameters.
\<close>

record QueryPlan =
  Errors :: "err list"
  table :: "TableMap option"
  dbDialect :: dialect
  planQuotedTable :: string
  target :: val
  colMap :: structColumnMap
  joins :: "JoinFilter list"
  lastRefs :: "sqlFilter list"
  assignCols :: "string list"
  assignBindVars :: "string list"
  assignArgs :: "val list"
  filters :: multiFilter
  orderBy :: "order list"
  groupBy :: "string list"
  limit :: int
  offset :: int
  hasCache :: bool
  cachingDisabled :: bool
  tables :: "TableMap list"

section \<open>The statement compiler\<close>

text \<open>
  \<^verbatim>\<open>func (plan *QueryPlan) argOrColumn(value interface{})\<close>. A pointer is resolved in the
  column map; when the entry's select target was redirected the function calls itself on
  the target, and nothing in the code bounds the chain of redirections, so the recursion
  carries a bound: \<open>OutOfFuel\<close> is the outcome when the bound is reached.
  \<^verbatim>\<open>reflect.TypeOf(nil)\<close> is the nil \<^verbatim>\<open>Type\<close>, on which \<^verbatim>\<open>Kind()\<close> panics.

  \<open>argOrColumns\<close> is the loop the code writes around \<^verbatim>\<open>argOrColumn\<close> (in the
  \<^verbatim>\<open>MultiSqlWrapper\<close> case, in \<^verbatim>\<open>addWhereClause\<close> and in \<^verbatim>\<open>addJoinClause\<close>): the rendered
  strings are collected in order, the arguments are appended in order, and the first
  error ends the loop.
\<close>

fun argOrColumn :: "nat \<Rightarrow> structColumnMap \<Rightarrow> val \<Rightarrow> failure + (val list \<times> string)"
and argOrColumns :: "nat \<Rightarrow> structColumnMap \<Rightarrow> val list \<Rightarrow> failure + (val list \<times> string list)"
where
  "argOrColumn 0 cm v = Inl OutOfFuel"
| "argOrColumn (Suc n) cm (Wrapper f v) =
     (case argOrColumn n cm v of
        Inl e \<Rightarrow> Inl e
      | Inr (as, wrapperVal) \<Rightarrow> Inr (as, WrapSql f wrapperVal))"
| "argOrColumn (Suc n) cm (MultiWrapper f vs) =
     (case argOrColumns n cm vs of
        Inl e \<Rightarrow> Inl e
      | Inr (as, wrapperVals) \<Rightarrow> Inr (as, MultiWrapSql f wrapperVals))"
| "argOrColumn (Suc n) cm NilIface = Inl (Panic ''invalid memory address or nil pointer dereference'')"
| "argOrColumn (Suc n) cm (IntV i) = Inr ([IntV i], BindVarPlaceholder)"
| "argOrColumn (Suc n) cm (StrV s) = Inr ([StrV s], BindVarPlaceholder)"
| "argOrColumn (Suc n) cm v =
     (case fieldMapForPointer cm v of
        Inl e \<Rightarrow> Inl e
      | Inr m \<Rightarrow>
          if selectTarget m \<noteq> addr m then argOrColumn n cm (selectTarget m)
          else Inr ([], quotedTable m @ ''.'' @ quotedColumn m))"
| "argOrColumns n cm [] = Inr ([], [])"
| "argOrColumns n cm (v # vs) =
     (case argOrColumn n cm v of
        Inl e \<Rightarrow> Inl e
      | Inr (newArgs, s) \<Rightarrow>
          (case argOrColumns n cm vs of
             Inl e \<Rightarrow> Inl e
           | Inr (as, ss) \<Rightarrow> Inr (newArgs @ as, s # ss)))"

text \<open>
  \<^verbatim>\<open>func (plan *QueryPlan) storeJoin()\<close>: an open join moves to the stored joins and
  \<^verbatim>\<open>plan.filters\<close> becomes nil.
\<close>

definition storeJoin :: "QueryPlan \<Rightarrow> QueryPlan" where
  "storeJoin plan =
     (case filters plan of
        OpenJoin lastJoinFilter \<Rightarrow>
          plan\<lparr>joins := joins plan @ [lastJoinFilter], filters := NilFilter\<rparr>
      | _ \<Rightarrow> plan)"

text \<open>
  \<^verbatim>\<open>func (plan *QueryPlan) QuotedTable() string\<close>. An empty \<^verbatim>\<open>quotedTable\<close> is computed from
  \<^verbatim>\<open>plan.table\<close>, which is dereferenced: a nil table panics. (The method also stores the
  computed string in the plan; the stored value is the one it returns on later calls.)
\<close>

definition QuotedTable :: "QueryPlan \<Rightarrow> failure + string" where
  "QuotedTable plan =
     (if planQuotedTable plan = [] then
        (case table plan of
           None \<Rightarrow> Inl (Panic ''invalid memory address or nil pointer dereference'')
         | Some t \<Rightarrow> Inr (QuotedTableForQuery (dbDialect plan) (SchemaName t) (TableName t)))
      else Inr (planQuotedTable plan))"

text \<open>\<^verbatim>\<open>func (plan *QueryPlan) addWhereClause(statement *Statement) error\<close>.\<close>

definition addWhereClause :: "nat \<Rightarrow> QueryPlan \<Rightarrow> Statement \<Rightarrow> failure + Statement" where
  "addWhereClause n plan statement =
     (if filters plan = NilFilter then Inr statement
      else
        (case argOrColumns n (colMap plan) (MultiActualValues (filters plan)) of
           Inl e \<Rightarrow> Inl e
         | Inr (newArgs, whereVals) \<Rightarrow>
             Inr (if MultiWhere (filters plan) whereVals \<noteq> [] then
                    statement\<lparr>query := query statement @ '' WHERE ''
                                  @ MultiWhere (filters plan) whereVals,
                              args := args statement @ newArgs\<rparr>
                  else statement\<lparr>args := args statement @ newArgs\<rparr>)))"

text \<open>\<^verbatim>\<open>func (plan *QueryPlan) addJoinClause(statement *Statement) error\<close>, a loop over the joins.\<close>

fun addJoinClauseLoop ::
  "nat \<Rightarrow> structColumnMap \<Rightarrow> JoinFilter list \<Rightarrow> Statement \<Rightarrow> failure + Statement" where
  "addJoinClauseLoop n cm [] statement = Inr statement"
| "addJoinClauseLoop n cm (j # js) statement =
     (case argOrColumns n cm (AndActualValues (onFilters j)) of
        Inl e \<Rightarrow> Inl e
      | Inr (newArgs, joinVals) \<Rightarrow>
          addJoinClauseLoop n cm js
            (statement\<lparr>query := query statement @ JoinClause j joinVals,
                       args := args statement @ newArgs\<rparr>))"

definition addJoinClause :: "nat \<Rightarrow> QueryPlan \<Rightarrow> Statement \<Rightarrow> failure + Statement" where
  "addJoinClause n plan statement = addJoinClauseLoop n (colMap plan) (joins plan) statement"

text \<open>The GROUP BY and ORDER BY loops of \<^verbatim>\<open>addSelectSuffix\<close>, with their index.\<close>

fun groupByLoop :: "nat \<Rightarrow> string list \<Rightarrow> Statement \<Rightarrow> Statement" where
  "groupByLoop index [] statement = statement"
| "groupByLoop index (g # gs) statement =
     groupByLoop (Suc index) gs
       (statement\<lparr>query := query statement
                     @ (if index = 0 then '' GROUP BY '' else '', '') @ g\<rparr>)"

fun orderByLoop ::
  "nat \<Rightarrow> structColumnMap \<Rightarrow> nat \<Rightarrow> order list \<Rightarrow> Statement \<Rightarrow> failure + Statement" where
  "orderByLoop n cm index [] statement = Inr statement"
| "orderByLoop n cm index (ob # obs) statement =
     (case argOrColumn n cm (fieldOrWrapper ob) of
        Inl e \<Rightarrow> Inl e
      | Inr (newArgs, v) \<Rightarrow>
          orderByLoop n cm (Suc index) obs
            (statement\<lparr>query := query statement
                          @ (if index = 0 then '' ORDER BY '' else '', '') @ order_OrderBy ob v,
                       args := args statement @ newArgs\<rparr>))"

text \<open>
  The end of \<^verbatim>\<open>addSelectSuffix\<close>, three statements in this order: the non-standard LIMIT,
  the OFFSET, and the standard FETCH NEXT.
\<close>

definition addNonstandardLimit :: "QueryPlan \<Rightarrow> Statement \<Rightarrow> Statement" where
  "addNonstandardLimit plan statement =
     (case NonstandardLimit (dbDialect plan) of
        Some limiterLimit \<Rightarrow>
          if limit plan > 0 then
            statement\<lparr>query := query statement @ '' '' @ limiterLimit BindVarPlaceholder,
                      args := args statement @ [IntV (limit plan)]\<rparr>
          else statement
      | None \<Rightarrow> statement)"

definition addOffset :: "QueryPlan \<Rightarrow> Statement \<Rightarrow> Statement" where
  "addOffset plan statement =
     (if offset plan > 0 then
        statement\<lparr>query := query statement @ '' OFFSET '' @ BindVarPlaceholder,
                  args := args statement @ [IntV (offset plan)]\<rparr>
      else statement)"

definition addFetchNext :: "QueryPlan \<Rightarrow> Statement \<Rightarrow> Statement" where
  "addFetchNext plan statement =
     (if limit plan > 0 \<and> NonstandardLimit (dbDialect plan) = None then
        statement\<lparr>query := query statement @ '' FETCH NEXT ('' @ BindVarPlaceholder
                               @ '') ROWS ONLY'',
                  args := args statement @ [IntV (limit plan)]\<rparr>
      else statement)"

definition addLimitOffset :: "QueryPlan \<Rightarrow> Statement \<Rightarrow> Statement" where
  "addLimitOffset plan statement =
     addFetchNext plan (addOffset plan (addNonstandardLimit plan statement))"

text \<open>
  \<^verbatim>\<open>func (plan *QueryPlan) addSelectSuffix(statement *Statement) error\<close>: the pending join
  is stored, then FROM, the joins, WHERE, GROUP BY, ORDER BY and the limit clauses are
  written.
\<close>

definition addSelectSuffix :: "nat \<Rightarrow> QueryPlan \<Rightarrow> Statement \<Rightarrow> failure + Statement" where
  "addSelectSuffix n plan0 statement =
     (let plan = storeJoin plan0 in
      case QuotedTable plan of
        Inl e \<Rightarrow> Inl e
      | Inr qt \<Rightarrow>
          (case addJoinClause n plan (statement\<lparr>query := query statement @ '' FROM '' @ qt\<rparr>) of
             Inl e \<Rightarrow> Inl e
           | Inr st1 \<Rightarrow>
               (case addWhereClause n plan st1 of
                  Inl e \<Rightarrow> Inl e
                | Inr st2 \<Rightarrow>
                    (case orderByLoop n (colMap plan) 0 (orderBy plan)
                            (groupByLoop 0 (groupBy plan) st2) of
                       Inl e \<Rightarrow> Inl e
                     | Inr st3 \<Rightarrow> Inr (addLimitOffset plan st3)))))"

text \<open>
  \<^verbatim>\<open>func (plan *QueryPlan) addSelectColumns(statement *Statement) error\<close>. \<open>selectClause\<close> is
  the body of the loop that computes the clause of one selected column.
\<close>

definition selectClause :: "nat \<Rightarrow> structColumnMap \<Rightarrow> fieldColumnMap \<Rightarrow> failure + (val list \<times> string)" where
  "selectClause n cm m =
     (if selectTarget m \<noteq> addr m then
        (case selectTarget m of
           Wrapper f actualValue \<Rightarrow>
             (case argOrColumn n cm actualValue of
                Inl e \<Rightarrow> Inl e
              | Inr (newArgs, sqlValue) \<Rightarrow> Inr (newArgs, WrapSql f sqlValue))
         | MultiWrapper f vs \<Rightarrow>
             (case argOrColumns n cm vs of
                Inl e \<Rightarrow> Inl e
              | Inr (newArgs, sqlValues) \<Rightarrow> Inr (newArgs, MultiWrapSql f sqlValues))
         | _ \<Rightarrow> argOrColumn n cm (addr m))
      else Inr ([], quotedTable m @ ''.'' @ quotedColumn m))"

fun selectColumnsLoop ::
  "nat \<Rightarrow> structColumnMap \<Rightarrow> nat \<Rightarrow> fieldColumnMap list \<Rightarrow> Statement \<Rightarrow> failure + Statement" where
  "selectColumnsLoop n cm index [] statement = Inr statement"
| "selectColumnsLoop n cm index (m # ms) statement =
     (if doSelect m then
        (case selectClause n cm m of
           Inl e \<Rightarrow> Inl e
         | Inr (newArgs, clause) \<Rightarrow>
             selectColumnsLoop n cm (Suc index) ms
               (statement\<lparr>query := query statement
                             @ (if index \<noteq> 0 then '','' else [])
                             @ clause
                             @ (if colAlias m \<noteq> [] then '' AS '' @ colAlias m else []),
                          args := args statement @ newArgs\<rparr>))
      else selectColumnsLoop n cm (Suc index) ms statement)"

definition addSelectColumns :: "nat \<Rightarrow> QueryPlan \<Rightarrow> Statement \<Rightarrow> failure + Statement" where
  "addSelectColumns n plan statement =
     (case Errors plan of
        e # es \<Rightarrow> Inl (Error e)
      | [] \<Rightarrow> selectColumnsLoop n (colMap plan) 0 (colMap plan) statement)"

text \<open>\<^verbatim>\<open>func (plan *QueryPlan) SelectStatement() (*Statement, error)\<close>.\<close>

definition SelectStatement :: "nat \<Rightarrow> QueryPlan \<Rightarrow> failure + Statement" where
  "SelectStatement n plan =
     (case addSelectColumns n plan \<lparr>query = ''SELECT '', args = []\<rparr> of
        Inl e \<Rightarrow> Inl e
      | Inr statement \<Rightarrow> addSelectSuffix n plan statement)"

text \<open>\<^verbatim>\<open>func (plan *QueryPlan) bindVars(statement *Statement) []string\<close>.\<close>

definition bindVars :: "QueryPlan \<Rightarrow> Statement \<Rightarrow> string list" where
  "bindVars plan statement = map (BindVar (dbDialect plan)) [0..<length (args statement)]"

section \<open>The fluent operations\<close>

text \<open>\<^verbatim>\<open>Limit\<close>, \<^verbatim>\<open>DiscardLimit\<close>, \<^verbatim>\<open>Offset\<close>, \<^verbatim>\<open>DiscardOffset\<close>.\<close>

definition Limit :: "QueryPlan \<Rightarrow> int \<Rightarrow> QueryPlan" where
  "Limit plan l = plan\<lparr>limit := l\<rparr>"

definition DiscardLimit :: "QueryPlan \<Rightarrow> QueryPlan" where
  "DiscardLimit plan = plan\<lparr>limit := 0\<rparr>"

definition Offset :: "QueryPlan \<Rightarrow> int \<Rightarrow> QueryPlan" where
  "Offset plan off = plan\<lparr>offset := off\<rparr>"

definition DiscardOffset :: "QueryPlan \<Rightarrow> QueryPlan" where
  "DiscardOffset plan = plan\<lparr>offset := 0\<rparr>"

text \<open>
  \<^verbatim>\<open>Filter\<close> calls \<^verbatim>\<open>plan.filters.Add\<close>: on a nil \<^verbatim>\<open>plan.filters\<close> the call panics. \<^verbatim>\<open>Where\<close>
  stores the pending join and starts a new AND-list with the filters it is given.
  \<^verbatim>\<open>Equal\<close> adds \<^verbatim>\<open>filters.Equal(fieldPtr, value)\<close>.
\<close>

definition plan_Filter :: "QueryPlan \<Rightarrow> sqlFilter list \<Rightarrow> failure + QueryPlan" where
  "plan_Filter plan fs =
     (case filters plan of
        NilFilter \<Rightarrow> Inl (Panic ''invalid memory address or nil pointer dereference'')
      | AndFilter old \<Rightarrow> Inr (plan\<lparr>filters := AndFilter (old @ fs)\<rparr>)
      | OpenJoin j \<Rightarrow> Inr (plan\<lparr>filters := OpenJoin (j\<lparr>onFilters := onFilters j @ fs\<rparr>)\<rparr>))"

definition plan_Where :: "QueryPlan \<Rightarrow> sqlFilter list \<Rightarrow> QueryPlan" where
  "plan_Where plan filterSlice = (storeJoin plan)\<lparr>filters := AndFilter filterSlice\<rparr>"

definition filters_Equal :: "val \<Rightarrow> val \<Rightarrow> sqlFilter" where
  "filters_Equal fieldPtr v = ComparisonFilter fieldPtr OpEqual v"

definition plan_Equal :: "QueryPlan \<Rightarrow> val \<Rightarrow> val \<Rightarrow> failure + QueryPlan" where
  "plan_Equal plan fieldPtr v = plan_Filter plan [filters_Equal fieldPtr v]"

text \<open>
  \<^verbatim>\<open>func (plan *AssignQueryPlan) Assign(fieldPtr interface{}, value interface{})\<close>: an
  error of the lookup is appended to \<^verbatim>\<open>plan.Errors\<close> and the plan is returned.
\<close>

definition Assign :: "QueryPlan \<Rightarrow> val \<Rightarrow> val \<Rightarrow> failure + QueryPlan" where
  "Assign plan fieldPtr v =
     (case LocateColumn (colMap plan) fieldPtr of
        Inl (Error e) \<Rightarrow> Inr (plan\<lparr>Errors := Errors plan @ [e]\<rparr>)
      | Inl f \<Rightarrow> Inl f
      | Inr col \<Rightarrow>
          Inr (plan\<lparr>assignCols := assignCols plan @ [col],
                    assignBindVars := assignBindVars plan
                       @ [BindVar (dbDialect plan) (length (assignBindVars plan))],
                    assignArgs := assignArgs plan @ [v]\<rparr>))"

section \<open>Example dialects and an example plan\<close>

text \<open>
  Two dialects in the style of the collaborating library, used where a theorem is run on
  a concrete input: one that quotes with double quotes, numbers its bind variables
  \<^verbatim>\<open>$1\<close>, \<^verbatim>\<open>$2\<close>, ... and has no limiter of its own, and one that writes \<^verbatim>\<open>?\<close> for
  every bind variable and implements the non-standard limiter as \<^verbatim>\<open>LIMIT\<close>.
\<close>

fun decimal :: "nat \<Rightarrow> string" where
  "decimal n = (if n < 10 then [char_of (48 + n)] else decimal (n div 10) @ [char_of (48 + n mod 10)])"

declare decimal.simps [simp del]

definition quoteIdent :: "string \<Rightarrow> string" where
  "quoteIdent s = [CHR 0x22] @ s @ [CHR 0x22]"

definition standardDialect :: dialect where
  "standardDialect =
     \<lparr>QuoteField = quoteIdent,
      QuotedTableForQuery = (\<lambda>schema tbl. if schema = [] then quoteIdent tbl
                                          else schema @ ''.'' @ quoteIdent tbl),
      BindVar = (\<lambda>i. ''$'' @ decimal (Suc i)),
      NonstandardLimit = None\<rparr>"

definition limiterDialect :: dialect where
  "limiterDialect =
     \<lparr>QuoteField = quoteIdent,
      QuotedTableForQuery = (\<lambda>schema tbl. quoteIdent tbl),
      BindVar = (\<lambda>i. ''?''),
      NonstandardLimit = Some (\<lambda>bindVar. ''LIMIT '' @ bindVar)\<rparr>"

text \<open>
  A struct \<^verbatim>\<open>struct{ ID int; Name string }\<close> mapped to the table \<open>t\<close>: the field \<open>ID\<close> at
  address 16 with the column \<open>id\<close>, the field \<open>Name\<close> at address 24 with the column
  \<open>name\<close>. \<open>examplePlan d\<close> is the plan for it in the dialect \<open>d\<close>, as the mapper leaves it.
\<close>

definition idColumn :: ColumnMap where
  "idColumn = ColumnMap ''id'' False [0] [] [] [] None"

definition nameColumn :: ColumnMap where
  "nameColumn = ColumnMap ''name'' False [1] [] [] [] None"

definition exampleTable :: TableMap where
  "exampleTable = TableMap [] ''t'' [idColumn, nameColumn]"

definition exampleColMap :: "dialect \<Rightarrow> structColumnMap" where
  "exampleColMap d =
     [\<lparr>addr = Ptr 16, selectTarget = Ptr 16, column = idColumn, colAlias = ''id'', prefix = [],
       quotedTable = QuotedTableForQuery d [] ''t'', quotedColumn = QuoteField d ''id'',
       doSelect = True\<rparr>,
      \<lparr>addr = Ptr 24, selectTarget = Ptr 24, column = nameColumn, colAlias = ''name'', prefix = [],
       quotedTable = QuotedTableForQuery d [] ''t'', quotedColumn = QuoteField d ''name'',
       doSelect = True\<rparr>]"

definition examplePlan :: "dialect \<Rightarrow> QueryPlan" where
  "examplePlan d =
     \<lparr>Errors = [], table = Some exampleTable, dbDialect = d,
      planQuotedTable = QuotedTableForQuery d [] ''t'', target = Ptr 8,
      colMap = exampleColMap d, joins = [], lastRefs = [],
      assignCols = [], assignBindVars = [], assignArgs = [], filters = NilFilter,
      orderBy = [], groupBy = [], limit = 0, offset = 0,
      hasCache = False, cachingDisabled = False, tables = [exampleTable]\<rparr>"

section \<open>Limit and offset clauses\<close>

text \<open>
  \<open>suffixBeforeLimit\<close> is \<^verbatim>\<open>addSelectSuffix\<close> up to and including the ORDER BY loop: what
  the function has written when it reaches its limit clauses.
\<close>

definition suffixBeforeLimit :: "nat \<Rightarrow> QueryPlan \<Rightarrow> Statement \<Rightarrow> failure + Statement" where
  "suffixBeforeLimit n plan0 statement =
     (let plan = storeJoin plan0 in
      case QuotedTable plan of
        Inl e \<Rightarrow> Inl e
      | Inr qt \<Rightarrow>
          (case addJoinClause n plan (statement\<lparr>query := query statement @ '' FROM '' @ qt\<rparr>) of
             Inl e \<Rightarrow> Inl e
           | Inr st1 \<Rightarrow>
               (case addWhereClause n plan st1 of
                  Inl e \<Rightarrow> Inl e
                | Inr st2 \<Rightarrow>
                    orderByLoop n (colMap plan) 0 (orderBy plan)
                            (groupByLoop 0 (groupBy plan) st2))))"

lemma storeJoin_limit_offset:
  "storeJoin (plan\<lparr>limit := l, offset := off\<rparr>) = (storeJoin plan)\<lparr>limit := l, offset := off\<rparr>"
  by (simp add: storeJoin_def split: multiFilter.splits)

lemma storeJoin_fields:
  "colMap (storeJoin plan) = colMap plan" "orderBy (storeJoin plan) = orderBy plan"
  "groupBy (storeJoin plan) = groupBy plan" "limit (storeJoin plan) = limit plan"
  "offset (storeJoin plan) = offset plan" "dbDialect (storeJoin plan) = dbDialect plan"
  "table (storeJoin plan) = table plan" "planQuotedTable (storeJoin plan) = planQuotedTable plan"
  "Errors (storeJoin plan) = Errors plan"
  by (simp_all add: storeJoin_def split: multiFilter.splits)

lemma QuotedTable_limit_offset:
  "QuotedTable (plan\<lparr>limit := l, offset := off\<rparr>) = QuotedTable plan"
  by (simp add: QuotedTable_def split: option.splits)

lemma addJoinClause_limit_offset:
  "addJoinClause n (plan\<lparr>limit := l, offset := off\<rparr>) st = addJoinClause n plan st"
  by (simp add: addJoinClause_def)

lemma addWhereClause_limit_offset:
  "addWhereClause n (plan\<lparr>limit := l, offset := off\<rparr>) st = addWhereClause n plan st"
  by (simp add: addWhereClause_def split: sum.splits prod.splits)

lemma suffixBeforeLimit_limit_offset:
  "suffixBeforeLimit n (plan\<lparr>limit := l, offset := off\<rparr>) st = suffixBeforeLimit n plan st"
  by (simp add: suffixBeforeLimit_def Let_def storeJoin_limit_offset QuotedTable_limit_offset
      addJoinClause_limit_offset addWhereClause_limit_offset cong: sum.case_cong)

lemma addLimitOffset_storeJoin:
  "addLimitOffset (storeJoin plan) st = addLimitOffset plan st"
  by (simp add: addLimitOffset_def addFetchNext_def addOffset_def addNonstandardLimit_def
      storeJoin_fields cong: option.case_cong if_cong)

lemma addSelectSuffix_split:
  "addSelectSuffix n plan st =
     (case suffixBeforeLimit n plan st of Inl e \<Rightarrow> Inl e | Inr s \<Rightarrow> Inr (addLimitOffset plan s))"
  by (simp add: addSelectSuffix_def suffixBeforeLimit_def Let_def addLimitOffset_storeJoin
      split: sum.splits)

lemma addLimitOffset_discarded:
  "addLimitOffset (plan\<lparr>limit := 0, offset := 0\<rparr>) st = st"
  by (simp add: addLimitOffset_def addFetchNext_def addOffset_def addNonstandardLimit_def
      split: option.splits)

lemma addSelectColumns_limit_offset:
  "addSelectColumns n (plan\<lparr>limit := l, offset := off\<rparr>) st = addSelectColumns n plan st"
  by (simp add: addSelectColumns_def split: list.splits)

lemma SelectStatement_split:
  "SelectStatement n plan =
     (case SelectStatement n (plan\<lparr>limit := 0, offset := 0\<rparr>) of
        Inl e \<Rightarrow> Inl e | Inr base \<Rightarrow> Inr (addLimitOffset plan base))"
  by (simp add: SelectStatement_def addSelectColumns_limit_offset addSelectSuffix_split
      suffixBeforeLimit_limit_offset addLimitOffset_discarded split: sum.splits)

lemma SelectStatement_base:
  assumes "SelectStatement n plan = Inr st"
  shows "\<exists>base. SelectStatement n (DiscardOffset (DiscardLimit plan)) = Inr base
               \<and> st = addLimitOffset plan base"
proof (cases "SelectStatement n (plan\<lparr>limit := 0, offset := 0\<rparr>)")
  case (Inl e)
  then show ?thesis using assms SelectStatement_split[of n plan] by simp
next
  case (Inr base)
  then show ?thesis using assms SelectStatement_split[of n plan]
    by (simp add: DiscardOffset_def DiscardLimit_def)
qed

lemma addLimitOffset_query:
  "query (addLimitOffset plan base) = query base
      @ (case NonstandardLimit (dbDialect plan) of
           Some limiterLimit \<Rightarrow> if 0 < limit plan then '' '' @ limiterLimit BindVarPlaceholder else []
         | None \<Rightarrow> [])
      @ (if 0 < offset plan then '' OFFSET '' @ BindVarPlaceholder else [])
      @ (if 0 < limit plan \<and> NonstandardLimit (dbDialect plan) = None
         then '' FETCH NEXT ('' @ BindVarPlaceholder @ '') ROWS ONLY'' else [])"
  by (simp add: addLimitOffset_def addFetchNext_def addOffset_def addNonstandardLimit_def
      split: option.splits)

lemma addLimitOffset_args:
  "args (addLimitOffset plan base) = args base
      @ (case NonstandardLimit (dbDialect plan) of
           Some limiterLimit \<Rightarrow> if 0 < limit plan then [IntV (limit plan)] else []
         | None \<Rightarrow> [])
      @ (if 0 < offset plan then [IntV (offset plan)] else [])
      @ (if 0 < limit plan \<and> NonstandardLimit (dbDialect plan) = None
         then [IntV (limit plan)] else [])"
  by (simp add: addLimitOffset_def addFetchNext_def addOffset_def addNonstandardLimit_def
      split: option.splits)

lemmas example_defs = examplePlan_def exampleColMap_def exampleTable_def idColumn_def
  nameColumn_def standardDialect_def limiterDialect_def quoteIdent_def

lemmas compile_defs = SelectStatement_def addSelectColumns_def selectClause_def
  addSelectSuffix_def storeJoin_def QuotedTable_def addJoinClause_def addWhereClause_def
  addLimitOffset_def addNonstandardLimit_def addOffset_def addFetchNext_def
  BindVarPlaceholder_def DiscardLimit_def DiscardOffset_def Limit_def Offset_def

text \<open>
  Claim C3. For every plan with a strictly positive limit and any offset whose SELECT
  compiles: the statement is the one the plan compiles to without limit and offset
  (\<open>base\<close>), followed, for a dialect that implements the non-standard limiter, by the
  limiter's clause around the placeholder and then the OFFSET clause (when the offset is
  positive), and for any other dialect by the OFFSET clause (when the offset is positive)
  and then \<^verbatim>\<open>FETCH NEXT (placeholder) ROWS ONLY\<close>. In both cases the limit is appended to
  the arguments at the position of its placeholder.
\<close>

theorem limit_before_offset_or_fetch_after:
  assumes "0 < limit plan" and "SelectStatement n plan = Inr st"
  shows "\<exists>base. SelectStatement n (DiscardOffset (DiscardLimit plan)) = Inr base \<and>
     (case NonstandardLimit (dbDialect plan) of
        Some limiterLimit \<Rightarrow>
          query st = query base @ '' '' @ limiterLimit BindVarPlaceholder
                       @ (if 0 < offset plan then '' OFFSET '' @ BindVarPlaceholder else [])
          \<and> args st = args base @ [IntV (limit plan)]
                       @ (if 0 < offset plan then [IntV (offset plan)] else [])
      | None \<Rightarrow>
          query st = query base
                       @ (if 0 < offset plan then '' OFFSET '' @ BindVarPlaceholder else [])
                       @ '' FETCH NEXT ('' @ BindVarPlaceholder @ '') ROWS ONLY''
          \<and> args st = args base
                       @ (if 0 < offset plan then [IntV (offset plan)] else [])
                       @ [IntV (limit plan)])"
proof -
  obtain base where base: "SelectStatement n (DiscardOffset (DiscardLimit plan)) = Inr base"
    and st: "st = addLimitOffset plan base"
    using SelectStatement_base[OF assms(2)] by blast
  show ?thesis
    using base assms(1)
    by (auto simp: st addLimitOffset_query addLimitOffset_args split: option.splits)
qed

theorem limit_before_offset_or_fetch_after_witness:
  "0 < limit ((examplePlan limiterDialect)\<lparr>limit := 3, offset := 10\<rparr>)
   \<and> SelectStatement 1 ((examplePlan limiterDialect)\<lparr>limit := 3, offset := 10\<rparr>)
       = Inr \<lparr>query = ''SELECT '' @ quoteIdent ''t'' @ ''.'' @ quoteIdent ''id'' @ '' AS id,''
                        @ quoteIdent ''t'' @ ''.'' @ quoteIdent ''name'' @ '' AS name FROM ''
                        @ quoteIdent ''t'' @ '' LIMIT %s OFFSET %s'',
              args = [IntV 3, IntV 10]\<rparr>
   \<and> (\<exists>base. SelectStatement 1
                 (DiscardOffset (DiscardLimit ((examplePlan limiterDialect)\<lparr>limit := 3, offset := 10\<rparr>)))
               = Inr base
             \<and> ''SELECT '' @ quoteIdent ''t'' @ ''.'' @ quoteIdent ''id'' @ '' AS id,''
                        @ quoteIdent ''t'' @ ''.'' @ quoteIdent ''name'' @ '' AS name FROM ''
                        @ quoteIdent ''t'' @ '' LIMIT %s OFFSET %s''
               = query base @ '' LIMIT %s OFFSET %s'')
   \<and> 0 < limit ((examplePlan standardDialect)\<lparr>limit := 3, offset := 10\<rparr>)
   \<and> SelectStatement 1 ((examplePlan standardDialect)\<lparr>limit := 3, offset := 10\<rparr>)
       = Inr \<lparr>query = ''SELECT '' @ quoteIdent ''t'' @ ''.'' @ quoteIdent ''id'' @ '' AS id,''
                        @ quoteIdent ''t'' @ ''.'' @ quoteIdent ''name'' @ '' AS name FROM ''
                        @ quoteIdent ''t'' @ '' OFFSET %s FETCH NEXT (%s) ROWS ONLY'',
              args = [IntV 10, IntV 3]\<rparr>
   \<and> (\<exists>base. SelectStatement 1
                 (DiscardOffset (DiscardLimit ((examplePlan standardDialect)\<lparr>limit := 3, offset := 10\<rparr>)))
               = Inr base
             \<and> ''SELECT '' @ quoteIdent ''t'' @ ''.'' @ quoteIdent ''id'' @ '' AS id,''
                        @ quoteIdent ''t'' @ ''.'' @ quoteIdent ''name'' @ '' AS name FROM ''
                        @ quoteIdent ''t'' @ '' OFFSET %s FETCH NEXT (%s) ROWS ONLY''
               = query base @ '' OFFSET %s FETCH NEXT (%s) ROWS ONLY'')"
proof -
  let ?pl = "(examplePlan limiterDialect)\<lparr>limit := 3, offset := 10\<rparr>"
  let ?ps = "(examplePlan standardDialect)\<lparr>limit := 3, offset := 10\<rparr>"
  let ?ql = "''SELECT '' @ quoteIdent ''t'' @ ''.'' @ quoteIdent ''id'' @ '' AS id,''
                        @ quoteIdent ''t'' @ ''.'' @ quoteIdent ''name'' @ '' AS name FROM ''
                        @ quoteIdent ''t'' @ '' LIMIT %s OFFSET %s''"
  let ?qs = "''SELECT '' @ quoteIdent ''t'' @ ''.'' @ quoteIdent ''id'' @ '' AS id,''
                        @ quoteIdent ''t'' @ ''.'' @ quoteIdent ''name'' @ '' AS name FROM ''
                        @ quoteIdent ''t'' @ '' OFFSET %s FETCH NEXT (%s) ROWS ONLY''"
  have l: "0 < limit ?pl" and s: "0 < limit ?ps" by simp_all
  have cl: "SelectStatement 1 ?pl = Inr \<lparr>query = ?ql, args = [IntV 3, IntV 10]\<rparr>"
    by (simp add: compile_defs example_defs fieldMapForPointer_def)
  have cs: "SelectStatement 1 ?ps = Inr \<lparr>query = ?qs, args = [IntV 10, IntV 3]\<rparr>"
    by (simp add: compile_defs example_defs fieldMapForPointer_def)
  have dl: "NonstandardLimit (dbDialect ?pl) = Some (\<lambda>bindVar. ''LIMIT '' @ bindVar)"
    by (simp add: examplePlan_def limiterDialect_def)
  have ds: "NonstandardLimit (dbDialect ?ps) = None"
    by (simp add: examplePlan_def standardDialect_def)
  have offl: "0 < offset ?pl" and offs: "0 < offset ?ps" by simp_all
  obtain bl where bl: "SelectStatement 1 (DiscardOffset (DiscardLimit ?pl)) = Inr bl"
    and ql: "?ql = query bl @ '' LIMIT %s OFFSET %s''"
    using limit_before_offset_or_fetch_after[OF l cl] unfolding dl using offl
    by (auto simp: BindVarPlaceholder_def)
  obtain bs where bs: "SelectStatement 1 (DiscardOffset (DiscardLimit ?ps)) = Inr bs"
    and qs: "?qs = query bs @ '' OFFSET %s FETCH NEXT (%s) ROWS ONLY''"
    using limit_before_offset_or_fetch_after[OF s cs] unfolding ds using offs
    by (auto simp: BindVarPlaceholder_def)
  show ?thesis using l cl bl ql s cs bs qs by blast
qed

text \<open>
  Claim C9. For every plan and every dialect, when the SELECT compiles: its text is the
  text compiled without limit and offset (\<open>base\<close>) followed by the three clauses the end
  of \<^verbatim>\<open>addSelectSuffix\<close> writes; a limit clause (the limiter's clause or FETCH NEXT) is
  written if and only if the limit is strictly positive, and the OFFSET clause if and
  only if the offset is strictly positive. \<^verbatim>\<open>DiscardLimit\<close> and \<^verbatim>\<open>Limit(0)\<close> give the same
  plan, hence the same compiled statement.
\<close>

theorem limit_and_offset_clauses_iff:
  "(SelectStatement n plan = Inr st \<longrightarrow>
     (\<exists>base limitClause offsetClause fetchClause.
         SelectStatement n (DiscardOffset (DiscardLimit plan)) = Inr base
       \<and> query st = query base @ limitClause @ offsetClause @ fetchClause
       \<and> limitClause =
           (case NonstandardLimit (dbDialect plan) of
              Some limiterLimit \<Rightarrow>
                if 0 < limit plan then '' '' @ limiterLimit BindVarPlaceholder else []
            | None \<Rightarrow> [])
       \<and> offsetClause = (if 0 < offset plan then '' OFFSET '' @ BindVarPlaceholder else [])
       \<and> fetchClause =
           (if 0 < limit plan \<and> NonstandardLimit (dbDialect plan) = None
            then '' FETCH NEXT ('' @ BindVarPlaceholder @ '') ROWS ONLY'' else [])
       \<and> ((limitClause \<noteq> [] \<or> fetchClause \<noteq> []) \<longleftrightarrow> 0 < limit plan)
       \<and> (offsetClause \<noteq> [] \<longleftrightarrow> 0 < offset plan)))
   \<and> DiscardLimit plan = Limit plan 0
   \<and> SelectStatement n (DiscardLimit plan) = SelectStatement n (Limit plan 0)"
proof (intro conjI impI)
  assume c: "SelectStatement n plan = Inr st"
  obtain base where base: "SelectStatement n (DiscardOffset (DiscardLimit plan)) = Inr base"
    and st: "st = addLimitOffset plan base"
    using SelectStatement_base[OF c] by blast
  have iff1: "((case NonstandardLimit (dbDialect plan) of
              Some limiterLimit \<Rightarrow>
                if 0 < limit plan then '' '' @ limiterLimit BindVarPlaceholder else []
            | None \<Rightarrow> []) \<noteq> []
        \<or> (if 0 < limit plan \<and> NonstandardLimit (dbDialect plan) = None
            then '' FETCH NEXT ('' @ BindVarPlaceholder @ '') ROWS ONLY'' else []) \<noteq> [])
       \<longleftrightarrow> 0 < limit plan"
    by (cases "NonstandardLimit (dbDialect plan)") simp_all
  have iff2: "(if 0 < offset plan then '' OFFSET '' @ BindVarPlaceholder else []) \<noteq> []
       \<longleftrightarrow> 0 < offset plan"
    by simp
  show "\<exists>base limitClause offsetClause fetchClause.
         SelectStatement n (DiscardOffset (DiscardLimit plan)) = Inr base
       \<and> query st = query base @ limitClause @ offsetClause @ fetchClause
       \<and> limitClause =
           (case NonstandardLimit (dbDialect plan) of
              Some limiterLimit \<Rightarrow>
                if 0 < limit plan then '' '' @ limiterLimit BindVarPlaceholder else []
            | None \<Rightarrow> [])
       \<and> offsetClause = (if 0 < offset plan then '' OFFSET '' @ BindVarPlaceholder else [])
       \<and> fetchClause =
           (if 0 < limit plan \<and> NonstandardLimit (dbDialect plan) = None
            then '' FETCH NEXT ('' @ BindVarPlaceholder @ '') ROWS ONLY'' else [])
       \<and> ((limitClause \<noteq> [] \<or> fetchClause \<noteq> []) \<longleftrightarrow> 0 < limit plan)
       \<and> (offsetClause \<noteq> [] \<longleftrightarrow> 0 < offset plan)"
    using base addLimitOffset_query[of plan base] iff1 iff2 unfolding st by blast
next
  show "DiscardLimit plan = Limit plan 0" by (simp add: DiscardLimit_def Limit_def)
next
  show "SelectStatement n (DiscardLimit plan) = SelectStatement n (Limit plan 0)"
    by (simp add: DiscardLimit_def Limit_def)
qed

theorem limit_and_offset_clauses_iff_witness:
  "SelectStatement 1 ((examplePlan standardDialect)\<lparr>limit := 3\<rparr>)
     = Inr \<lparr>query = ''SELECT '' @ quoteIdent ''t'' @ ''.'' @ quoteIdent ''id'' @ '' AS id,''
                        @ quoteIdent ''t'' @ ''.'' @ quoteIdent ''name'' @ '' AS name FROM ''
                        @ quoteIdent ''t'' @ '' FETCH NEXT (%s) ROWS ONLY'',
            args = [IntV 3]\<rparr>
   \<and> (\<exists>base. SelectStatement 1
                 (DiscardOffset (DiscardLimit ((examplePlan standardDialect)\<lparr>limit := 3\<rparr>)))
               = Inr base
             \<and> ''SELECT '' @ quoteIdent ''t'' @ ''.'' @ quoteIdent ''id'' @ '' AS id,''
                        @ quoteIdent ''t'' @ ''.'' @ quoteIdent ''name'' @ '' AS name FROM ''
                        @ quoteIdent ''t'' @ '' FETCH NEXT (%s) ROWS ONLY''
               = query base @ '' FETCH NEXT (%s) ROWS ONLY'')
   \<and> SelectStatement 1 (DiscardLimit ((examplePlan standardDialect)\<lparr>limit := 3\<rparr>))
       = SelectStatement 1 (Limit ((examplePlan standardDialect)\<lparr>limit := 3\<rparr>) 0)"
proof -
  let ?p = "(examplePlan standardDialect)\<lparr>limit := 3\<rparr>"
  let ?q = "''SELECT '' @ quoteIdent ''t'' @ ''.'' @ quoteIdent ''id'' @ '' AS id,''
                        @ quoteIdent ''t'' @ ''.'' @ quoteIdent ''name'' @ '' AS name FROM ''
                        @ quoteIdent ''t'' @ '' FETCH NEXT (%s) ROWS ONLY''"
  have c: "SelectStatement 1 ?p = Inr \<lparr>query = ?q, args = [IntV 3]\<rparr>"
    by (simp add: compile_defs example_defs fieldMapForPointer_def)
  have d: "NonstandardLimit (dbDialect ?p) = None"
    by (simp add: examplePlan_def standardDialect_def)
  have lim: "0 < limit ?p" and off: "\<not> 0 < offset ?p" by (simp_all add: examplePlan_def)
  note t = limit_and_offset_clauses_iff[of 1 ?p "\<lparr>query = ?q, args = [IntV 3]\<rparr>"]
  obtain base where b: "SelectStatement 1 (DiscardOffset (DiscardLimit ?p)) = Inr base"
    and q: "?q = query base @ '' FETCH NEXT (%s) ROWS ONLY''"
    using t c unfolding d using lim off by (auto simp: BindVarPlaceholder_def)
  have e: "SelectStatement 1 (DiscardLimit ?p) = SelectStatement 1 (Limit ?p 0)"
    using t by blast
  show ?thesis using c b q e by blast
qed

section \<open>The finalizing actions\<close>

text \<open>
  The execution transport is a collaborator; its answers are parameters. \<open>dbMapExec\<close> is
  \<^verbatim>\<open>plan.dbMap.Exec\<close> (only its error is used), \<open>executorExec\<close> is \<^verbatim>\<open>plan.executor.Exec\<close>
  followed by \<^verbatim>\<open>RowsAffected()\<close> on its result (either may return an error),
  \<open>executorSelect\<close> is \<^verbatim>\<open>plan.executor.Select\<close> and \<open>executorSelectInt\<close> is
  \<^verbatim>\<open>plan.executor.SelectInt\<close>.

  A finalizing action returns its Go result (\<open>Inl (Error e)\<close> for a returned error \<open>e\<close>,
  whatever value accompanies it) together with the SQL it has sent to the transport, in
  order: an empty list means that nothing was executed against the database.
\<close>

type_synonym sqlCall = "string \<times> val list"

record transport =
  dbMapExec :: "string \<Rightarrow> err option"
  executorExec :: "string \<Rightarrow> val list \<Rightarrow> err + (err + int)"
  executorSelect :: "val \<Rightarrow> string \<Rightarrow> val list \<Rightarrow> err + val list"
  executorSelectInt :: "string \<Rightarrow> val list \<Rightarrow> int \<times> err option"

text \<open>\<^verbatim>\<open>func (plan *QueryPlan) Truncate() error\<close>.\<close>

definition Truncate :: "transport \<Rightarrow> QueryPlan \<Rightarrow> (failure + unit) \<times> sqlCall list" where
  "Truncate tr plan =
     (case QuotedTable plan of
        Inl f \<Rightarrow> (Inl f, [])
      | Inr qt \<Rightarrow>
          ((case dbMapExec tr (''TRUNCATE TABLE '' @ qt) of
              None \<Rightarrow> Inr ()
            | Some e \<Rightarrow> Inl (Error e)),
           [(''TRUNCATE TABLE '' @ qt, [])]))"

text \<open>\<^verbatim>\<open>func (plan *QueryPlan) Count() (int64, error)\<close>.\<close>

definition Count :: "nat \<Rightarrow> transport \<Rightarrow> QueryPlan \<Rightarrow> (failure + int) \<times> sqlCall list" where
  "Count n tr plan =
     (case addSelectSuffix n plan \<lparr>query = ''SELECT COUNT(*)'', args = []\<rparr> of
        Inl f \<Rightarrow> (Inl f, [])
      | Inr statement \<Rightarrow>
          ((case executorSelectInt tr
                   (fst (Statement_Query statement (bindVars plan statement))) (args statement) of
              (v, None) \<Rightarrow> Inr v
            | (v, Some e) \<Rightarrow> Inl (Error e)),
           [(fst (Statement_Query statement (bindVars plan statement)), args statement)]))"

text \<open>
  \<^verbatim>\<open>func (plan *QueryPlan) Insert() error\<close>. The two loops write the columns and the bind
  variables separated by \<^verbatim>\<open>", "\<close>; the statement is created with \<^verbatim>\<open>new(Statement)\<close> and its
  argument list stays empty. (The cache invalidation that follows the execution runs in a
  goroutine and has no part in the result.)
\<close>

definition Insert :: "transport \<Rightarrow> QueryPlan \<Rightarrow> (failure + unit) \<times> sqlCall list" where
  "Insert tr plan =
     (case Errors plan of
        e # es \<Rightarrow> (Inl (Error e), [])
      | [] \<Rightarrow>
          (case table plan of
             None \<Rightarrow> (Inl (Panic ''invalid memory address or nil pointer dereference''), [])
           | Some t \<Rightarrow>
               (let q = ''INSERT INTO ''
                          @ QuotedTableForQuery (dbDialect plan) (SchemaName t) (TableName t)
                          @ '' ('' @ strings_Join (assignCols plan) '', ''
                          @ '') VALUES ('' @ strings_Join (assignBindVars plan) '', '' @ '')''
                in ((case executorExec tr q [] of
                       Inl e \<Rightarrow> Inl (Error e)
                     | Inr res \<Rightarrow> Inr ()),
                    [(q, [])]))))"

text \<open>
  \<^verbatim>\<open>func (plan *QueryPlan) Update() (int64, error)\<close>. \<open>UpdateStatement\<close> is the part of the
  function that builds the statement: it starts from the assignment arguments, writes one
  \<^verbatim>\<open>col=placeholder\<close> per assignment and adds the WHERE clause.
\<close>

definition UpdateStatement :: "nat \<Rightarrow> QueryPlan \<Rightarrow> failure + Statement" where
  "UpdateStatement n plan =
     (case table plan of
        None \<Rightarrow> Inl (Panic ''invalid memory address or nil pointer dereference'')
      | Some t \<Rightarrow>
          addWhereClause n plan
            \<lparr>query = ''UPDATE ''
                       @ QuotedTableForQuery (dbDialect plan) (SchemaName t) (TableName t)
                       @ '' SET ''
                       @ strings_Join (map (\<lambda>col. col @ ''='' @ BindVarPlaceholder) (assignCols plan))
                           '', '',
             args = assignArgs plan\<rparr>)"

definition execStatement ::
  "transport \<Rightarrow> QueryPlan \<Rightarrow> Statement \<Rightarrow> (failure + int) \<times> sqlCall list" where
  "execStatement tr plan statement =
     ((case executorExec tr (fst (Statement_Query statement (bindVars plan statement)))
              (args statement) of
         Inl e \<Rightarrow> Inl (Error e)
       | Inr (Inl e) \<Rightarrow> Inl (Error e)
       | Inr (Inr rows) \<Rightarrow> Inr rows),
      [(fst (Statement_Query statement (bindVars plan statement)), args statement)])"

definition Update :: "nat \<Rightarrow> transport \<Rightarrow> QueryPlan \<Rightarrow> (failure + int) \<times> sqlCall list" where
  "Update n tr plan =
     (case Errors plan of
        e # es \<Rightarrow> (Inl (Error e), [])
      | [] \<Rightarrow>
          (case UpdateStatement n plan of
             Inl f \<Rightarrow> (Inl f, [])
           | Inr statement \<Rightarrow> execStatement tr plan statement))"

text \<open>\<^verbatim>\<open>func (plan *QueryPlan) Delete() (int64, error)\<close>.\<close>

definition DeleteStatement :: "nat \<Rightarrow> QueryPlan \<Rightarrow> failure + Statement" where
  "DeleteStatement n plan =
     (case table plan of
        None \<Rightarrow> Inl (Panic ''invalid memory address or nil pointer dereference'')
      | Some t \<Rightarrow>
          addWhereClause n plan
            \<lparr>query = ''DELETE FROM ''
                       @ QuotedTableForQuery (dbDialect plan) (SchemaName t) (TableName t),
             args = []\<rparr>)"

definition Delete :: "nat \<Rightarrow> transport \<Rightarrow> QueryPlan \<Rightarrow> (failure + int) \<times> sqlCall list" where
  "Delete n tr plan =
     (case Errors plan of
        e # es \<Rightarrow> (Inl (Error e), [])
      | [] \<Rightarrow>
          (case DeleteStatement n plan of
             Inl f \<Rightarrow> (Inl f, [])
           | Inr statement \<Rightarrow> execStatement tr plan statement))"

subsection \<open>Select and the result cache\<close>

text \<open>
  What the cache holds. \<^verbatim>\<open>restoreFromCache\<close> returns a \<^verbatim>\<open>[]interface{}\<close>, and the cache path
  inspects its values by type assertion (\<^verbatim>\<open>map[string]interface{}\<close>, \<^verbatim>\<open>[]interface{}\<close>) and
  through \<^verbatim>\<open>reflect.ValueOf\<close>. \<open>cval\<close> has the kinds of values that \<^verbatim>\<open>encoding/json\<close> decodes
  into an \<^verbatim>\<open>interface{}\<close>: nil, a boolean, a number (only its type is read), a string, a
  slice, and a map, given by its entries in the order in which the \<^verbatim>\<open>range\<close> of
  \<^verbatim>\<open>unmarshalCachedResults\<close> visits them.
\<close>

datatype cval =
    CNil
  | CBool bool
  | CNum int
  | CStr string
  | CSlice "cval list"
  | CMap "(string \<times> cval) list"

text \<open>
  The cache and the functions that are not among the sources are collaborators, and their
  answers are parameters: \<open>Cacheable\<close> is \<^verbatim>\<open>plan.cache.Cacheable(plan.table)\<close>, \<open>cacheGet\<close> is
  \<^verbatim>\<open>plan.cache.Get\<close>; \<^verbatim>\<open>CacheKey\<close>, \<^verbatim>\<open>restoreFromCache\<close> and \<^verbatim>\<open>prepareForCache\<close> are functions of
  the package that are not among the sources; \<open>jsonMarshal\<close> is \<^verbatim>\<open>json.Marshal\<close>; \<open>valueFor\<close> is
  \<^verbatim>\<open>cacheMap.valueFor(cacheVal).([]interface{})\<close> of the type \<^verbatim>\<open>cacheMapping\<close>, which is not
  among the sources either: it yields the data (\<open>None\<close> is the nil slice) or panics.

  What \<^verbatim>\<open>reflect\<close> tells about the types involved is a parameter too: \<open>targetType\<close> is
  \<^verbatim>\<open>plan.target.Type()\<close>; \<open>structFields k\<close> are the types of the fields of the struct type
  \<open>k\<close>, in order; \<open>ConvertibleTo v t index\<close> is \<^verbatim>\<open>v.Type().ConvertibleTo(field.Type())\<close> for
  the cached value \<open>v\<close> and the field at \<open>index\<close> in a value of type \<open>t\<close>. The fields are
  exported, as the fields that \<^verbatim>\<open>mapColumns\<close> maps are, so that \<^verbatim>\<open>Set\<close> is allowed on them.
\<close>

record cacheEnv =
  Cacheable :: bool
  CacheKey :: "string \<Rightarrow> val list \<Rightarrow> err + string"
  cacheGet :: "string \<Rightarrow> err + string"
  restoreFromCache :: "string \<Rightarrow> err + cval list"
  valueFor :: "val list \<Rightarrow> failure + cval list option"
  jsonMarshal :: "cval list \<Rightarrow> err + string"
  prepareForCache :: "string \<Rightarrow> err + string"
  targetType :: rtype
  structFields :: "nat \<Rightarrow> rtype list"
  ConvertibleTo :: "cval \<Rightarrow> rtype \<Rightarrow> nat list \<Rightarrow> bool"

text \<open>
  \<^verbatim>\<open>func fieldByIndex(v reflect.Value, index []int) reflect.Value\<close>, on the type of the
  value: a pointer is followed (a nil pointer is initialized first), a struct gives its
  field, and any other kind panics; \<^verbatim>\<open>Field(idx)\<close> panics when the struct has no such
  field.
\<close>

fun fieldByIndex :: "(nat \<Rightarrow> rtype list) \<Rightarrow> rtype \<Rightarrow> nat list \<Rightarrow> failure + rtype" where
  "fieldByIndex fieldsOf t [] = Inr t"
| "fieldByIndex fieldsOf t (idx # index) =
     (case (case t of TPtr e \<Rightarrow> e | _ \<Rightarrow> t) of
        TStruct k \<Rightarrow>
          if idx < length (fieldsOf k) then fieldByIndex fieldsOf (fieldsOf k ! idx) index
          else Inl (Panic ''reflect: Field index out of range'')
      | _ \<Rightarrow> Inl (Panic ''gorp: found unsupported type using fieldByIndex''))"

text \<open>
  The loop at the start of \<^verbatim>\<open>setField\<close>: \<^verbatim>\<open>for _, col = range plan.colMap\<close> assigns \<^verbatim>\<open>col\<close> on
  every iteration and breaks at the first entry with the alias. When no entry has the
  alias, \<^verbatim>\<open>col\<close> is the last entry after the loop; it is nil only for an empty column map.
\<close>

fun aliasLoop :: "structColumnMap \<Rightarrow> string \<Rightarrow> fieldColumnMap option" where
  "aliasLoop [] a = None"
| "aliasLoop [col] a = Some col"
| "aliasLoop (col # next # cm) a = (if colAlias col = a then Some col else aliasLoop (next # cm) a)"

text \<open>
  \<^verbatim>\<open>func (plan *QueryPlan) unmarshalCachedResults(cached, resultSlice, elementType) error\<close>
  and \<^verbatim>\<open>func (plan *QueryPlan) setField(target, alias, value) error\<close>; \<open>setFields\<close> is the
  loop over the entries of one cached row. The result is the returned error, a panic, or
  \<open>Inr ()\<close> for nil. Of \<^verbatim>\<open>resultSlice\<close> the model keeps \<open>appendable\<close>: whether it is a slice, on
  which \<^verbatim>\<open>reflect.Append\<close> does not panic. The panics are those of
  \<^item> the type assertion \<^verbatim>\<open>res.(map[string]interface{})\<close> on a row that is not a map;
  \<^item> \<^verbatim>\<open>fieldByIndex\<close>;
  \<^item> the type assertion \<^verbatim>\<open>value.([]interface{})\<close>, for a field that is a slice, on a value
    that is not one;
  \<^item> \<^verbatim>\<open>v.Type()\<close> on the zero \<^verbatim>\<open>Value\<close> that \<^verbatim>\<open>reflect.ValueOf(nil)\<close> is;
  \<^item> \<^verbatim>\<open>reflect.Append(resultSlice, newTarget)\<close> on a \<^verbatim>\<open>resultSlice\<close> that is not a slice.
\<close>

fun unmarshalCachedResults ::
  "cacheEnv \<Rightarrow> structColumnMap \<Rightarrow> cval list \<Rightarrow> bool \<Rightarrow> rtype \<Rightarrow> failure + unit"
and setFields ::
  "cacheEnv \<Rightarrow> structColumnMap \<Rightarrow> rtype \<Rightarrow> (string \<times> cval) list \<Rightarrow> failure + unit"
and setField ::
  "cacheEnv \<Rightarrow> structColumnMap \<Rightarrow> rtype \<Rightarrow> string \<Rightarrow> cval \<Rightarrow> failure + unit"
where
  "unmarshalCachedResults env cm [] appendable elementType = Inr ()"
| "unmarshalCachedResults env cm (res # cached) appendable elementType =
     (case res of
        CMap resMap \<Rightarrow>
          (case setFields env cm elementType resMap of
             Inl f \<Rightarrow> Inl f
           | Inr u \<Rightarrow>
               if appendable then unmarshalCachedResults env cm cached appendable elementType
               else Inl (Panic ''reflect: call of reflect.Append on ptr Value''))
      | _ \<Rightarrow> Inl (Panic ''interface conversion: interface {} is not map[string]interface {}''))"
| "setFields env cm elementType [] = Inr ()"
| "setFields env cm elementType ((a, v) # resMap) =
     (case setField env cm elementType a v of
        Inl f \<Rightarrow> Inl f
      | Inr u \<Rightarrow> setFields env cm elementType resMap)"
| "setField env cm elementType a v =
     (case aliasLoop cm a of
        None \<Rightarrow> Inl (Error (NoFieldForAlias a))
      | Some col \<Rightarrow>
          (case fieldByIndex (structFields env) elementType (FieldIndex (column col)) of
             Inl f \<Rightarrow> Inl f
           | Inr (TSlice e) \<Rightarrow>
               (case v of
                  CSlice vs \<Rightarrow> unmarshalCachedResults env cm vs True e
                | _ \<Rightarrow> Inl (Panic ''interface conversion: interface {} is not []interface {}''))
           | Inr fieldType \<Rightarrow>
               if v = CNil then Inl (Panic ''reflect: call of reflect.Value.Type on zero Value'')
               else if \<not> ConvertibleTo env v elementType (FieldIndex (column col))
               then Inl (Error CannotConvert)
               else Inr ()))"

text \<open>
  \<^verbatim>\<open>func (plan *QueryPlan) cachedSelect(target, statement, bindVars) []interface{}\<close>, with
  the target and its type as arguments. \<open>Inr None\<close> is the nil slice. For a target that is
  a pointer to a slice the rows are appended to the slice it points to (\<^verbatim>\<open>target.Elem()\<close>,
  the zero \<^verbatim>\<open>Value\<close> for a nil pointer) and the returned slice is empty and not nil. For
  any other target \<^verbatim>\<open>selectTarget\<close> is \<^verbatim>\<open>reflect.ValueOf(&results)\<close>, a pointer, so
  \<^verbatim>\<open>unmarshalCachedResults\<close> is called with a \<^verbatim>\<open>resultSlice\<close> that is not a slice, and the
  function returns \<^verbatim>\<open>results\<close> as it has created it. \<^verbatim>\<open>target.Type()\<close> panics on the zero
  \<^verbatim>\<open>Value\<close> that \<^verbatim>\<open>plan.target\<close> is before \<^verbatim>\<open>Query\<close> sets it. The function has no \<^verbatim>\<open>recover\<close>.
\<close>

definition cachedSelect ::
  "cacheEnv \<Rightarrow> QueryPlan \<Rightarrow> val \<Rightarrow> rtype \<Rightarrow> Statement \<Rightarrow> string list
     \<Rightarrow> failure + val list option" where
  "cachedSelect env plan tgt tgtType statement bvs =
     (if \<not> hasCache plan \<or> \<not> Cacheable env then Inr None
      else
        (case CacheKey env (fst (Statement_Query statement bvs)) (args statement) of
           Inl e \<Rightarrow> Inr None
         | Inr key \<Rightarrow>
             (case cacheGet env key of
                Inl e \<Rightarrow> Inr None
              | Inr result \<Rightarrow>
                  if result = [] then Inr None
                  else
                    (case restoreFromCache env result of
                       Inl e \<Rightarrow> Inr None
                     | Inr cached \<Rightarrow>
                         if tgt = NilIface then
                           Inl (Panic ''reflect: call of reflect.Value.Type on zero Value'')
                         else
                           (case (case tgtType of
                                    TPtr (TSlice e) \<Rightarrow>
                                      unmarshalCachedResults env (colMap plan) cached
                                        (tgt \<noteq> NilPtr) e
                                  | _ \<Rightarrow>
                                      unmarshalCachedResults env (colMap plan) cached
                                        False tgtType) of
                              Inl (Error e) \<Rightarrow> Inr None
                            | Inl f \<Rightarrow> Inl f
                            | Inr u \<Rightarrow> Inr (Some []))))))"

text \<open>
  \<^verbatim>\<open>func (plan *QueryPlan) toCacheFormat(cacheVal reflect.Value) []interface{}\<close> on the rows
  the transport has returned, a \<^verbatim>\<open>[]interface{}\<close> (so that the kind of \<^verbatim>\<open>cacheVal\<close> is
  \<^verbatim>\<open>reflect.Slice\<close>). An empty slice gives empty data. Otherwise the first row is
  dereferenced while it is an interface or a pointer, and \<^verbatim>\<open>src.Type()\<close> panics on the zero
  \<^verbatim>\<open>Value\<close> that a nil row ends in; then the \<^verbatim>\<open>cacheMapping\<close> is built from the selected
  columns and asked for the data.
\<close>

definition toCacheFormat :: "cacheEnv \<Rightarrow> val list \<Rightarrow> failure + cval list option" where
  "toCacheFormat env rows =
     (case rows of
        [] \<Rightarrow> Inr (Some [])
      | src # rest \<Rightarrow>
          if src = NilIface \<or> src = NilPtr then
            Inl (Panic ''reflect: call of reflect.Value.Type on zero Value'')
          else valueFor env rows)"

text \<open>
  \<^verbatim>\<open>func (plan *QueryPlan) cacheResults(results, statement, bindVars)\<close> returns nothing; its
  deferred function is empty, the \<^verbatim>\<open>recover\<close> in it being commented out, so a panic of
  \<^verbatim>\<open>toCacheFormat\<close> leaves the function as a panic. The model returns the
  \<^verbatim>\<open>plan.cache.Set(plan.tables, key, encoded)\<close> that the function's goroutine issues, if it
  gets that far.
\<close>

definition cacheResults ::
  "cacheEnv \<Rightarrow> QueryPlan \<Rightarrow> val list \<Rightarrow> Statement \<Rightarrow> string list
     \<Rightarrow> failure + (string \<times> string) option" where
  "cacheResults env plan results statement bvs =
     (case CacheKey env (fst (Statement_Query statement bvs)) (args statement) of
        Inl e \<Rightarrow> Inr None
      | Inr key \<Rightarrow>
          (case toCacheFormat env results of
             Inl f \<Rightarrow> Inl f
           | Inr None \<Rightarrow> Inr None
           | Inr (Some cacheData) \<Rightarrow>
               (case jsonMarshal env cacheData of
                  Inl e \<Rightarrow> Inr None
                | Inr raw \<Rightarrow>
                    (case prepareForCache env raw of
                       Inl e \<Rightarrow> Inr None
                     | Inr encoded \<Rightarrow> Inr (Some (key, encoded))))))"

text \<open>
  \<^verbatim>\<open>func (plan *QueryPlan) Select() ([]interface{}, error)\<close>, for a target that is not
  itself a sub-query. The third component of the result is the cache write issued by
  \<^verbatim>\<open>cacheResults\<close>, if any. \<^verbatim>\<open>plan.target.Interface()\<close> panics on the zero \<^verbatim>\<open>Value\<close>.
\<close>

definition Select ::
  "nat \<Rightarrow> cacheEnv \<Rightarrow> transport \<Rightarrow> QueryPlan
     \<Rightarrow> (failure + val list) \<times> sqlCall list \<times> (string \<times> string) option" where
  "Select n env tr plan =
     (case SelectStatement n plan of
        Inl f \<Rightarrow> (Inl f, [], None)
      | Inr statement \<Rightarrow>
          (case (if \<not> cachingDisabled plan
                 then cachedSelect env plan (target plan) (targetType env) statement
                        (bindVars plan statement)
                 else Inr None) of
             Inl f \<Rightarrow> (Inl f, [], None)
           | Inr (Some result) \<Rightarrow> (Inr result, [], None)
           | Inr None \<Rightarrow>
               if target plan = NilIface then
                 (Inl (Panic ''reflect: call of reflect.Value.Interface on zero Value''), [], None)
               else
                 (case executorSelect tr (target plan)
                         (fst (Statement_Query statement (bindVars plan statement)))
                         (args statement) of
                    Inl e \<Rightarrow>
                      (Inl (Error e),
                       [(fst (Statement_Query statement (bindVars plan statement)), args statement)],
                       None)
                  | Inr res \<Rightarrow>
                      if hasCache plan \<and> Cacheable env \<and> \<not> cachingDisabled plan then
                        (case cacheResults env plan res statement (bindVars plan statement) of
                           Inl f \<Rightarrow>
                             (Inl f,
                              [(fst (Statement_Query statement (bindVars plan statement)),
                                args statement)],
                              None)
                         | Inr written \<Rightarrow>
                             (Inr res,
                              [(fst (Statement_Query statement (bindVars plan statement)),
                                args statement)],
                              written))
                      else
                        (Inr res,
                         [(fst (Statement_Query statement (bindVars plan statement)),
                           args statement)],
                         None))))"

section \<open>Pending errors and the finalizing actions\<close>

text \<open>A transport that accepts everything, for the runs on concrete inputs.\<close>

definition okTransport :: transport where
  "okTransport =
     \<lparr>dbMapExec = (\<lambda>q. None),
      executorExec = (\<lambda>q a. Inr (Inr 1)),
      executorSelect = (\<lambda>t q a. Inr [StrV ''row'']),
      executorSelectInt = (\<lambda>q a. (0, None))\<rparr>"

text \<open>
  \<^verbatim>\<open>Select\<close>, \<^verbatim>\<open>Insert\<close>, \<^verbatim>\<open>Update\<close> and \<^verbatim>\<open>Delete\<close> return the first recorded error and send
  nothing to the transport.
\<close>

lemma Select_pending_error:
  "Errors plan = e # es \<Longrightarrow> Select n env tr plan = (Inl (Error e), [], None)"
  by (simp add: Select_def SelectStatement_def addSelectColumns_def)

lemma Insert_pending_error:
  "Errors plan = e # es \<Longrightarrow> Insert tr plan = (Inl (Error e), [])"
  by (simp add: Insert_def)

lemma Update_pending_error:
  "Errors plan = e # es \<Longrightarrow> Update n tr plan = (Inl (Error e), [])"
  by (simp add: Update_def)

lemma Delete_pending_error:
  "Errors plan = e # es \<Longrightarrow> Delete n tr plan = (Inl (Error e), [])"
  by (simp add: Delete_def)

text \<open>
  Claim C1. The claim is that every finalizing action of a plan with a recorded error
  returns the first recorded error and executes no SQL. \<^verbatim>\<open>Truncate\<close> and \<^verbatim>\<open>Count\<close> never
  look at \<^verbatim>\<open>plan.Errors\<close>: on the example plan with the error recorded that \<^verbatim>\<open>Query\<close>
  records for a target that is not a pointer to a struct (it records it, and goes on
  mapping, for a pointer to a slice of structs: lemma \<open>Query_slice_example\<close>), both send
  their statement to the transport and return the transport's answer.
\<close>

theorem Truncate_and_Count_ignore_pending_errors:
  "Errors ((examplePlan standardDialect)\<lparr>Errors := [TargetNotPointerToStruct]\<rparr>)
     = [TargetNotPointerToStruct]
   \<and> Truncate okTransport ((examplePlan standardDialect)\<lparr>Errors := [TargetNotPointerToStruct]\<rparr>)
       = (Inr (), [(''TRUNCATE TABLE '' @ quoteIdent ''t'', [])])
   \<and> Count 1 okTransport ((examplePlan standardDialect)\<lparr>Errors := [TargetNotPointerToStruct]\<rparr>)
       = (Inr 0, [(''SELECT COUNT(*) FROM '' @ quoteIdent ''t'', [])])"
  by (simp add: Truncate_def Count_def okTransport_def compile_defs example_defs
      Statement_Query_def bindVars_def)

section \<open>Failures of the cache path\<close>

text \<open>
  The failures of the read side that \<^verbatim>\<open>cachedSelect\<close> answers with nil, in the order in
  which it meets them: the key computation returns an error, the cache's \<^verbatim>\<open>Get\<close> returns
  an error, the payload is empty, the payload cannot be restored, and
  \<^verbatim>\<open>unmarshalCachedResults\<close> returns an error (a value that is not convertible to the type
  of its field, or an alias when the column map is empty).
\<close>

definition cacheReadError :: "cacheEnv \<Rightarrow> QueryPlan \<Rightarrow> string \<Rightarrow> val list \<Rightarrow> bool" where
  "cacheReadError env plan q a =
     (case CacheKey env q a of
        Inl e \<Rightarrow> True
      | Inr key \<Rightarrow>
          (case cacheGet env key of
             Inl e \<Rightarrow> True
           | Inr payload \<Rightarrow>
               payload = [] \<or>
               (case restoreFromCache env payload of
                  Inl e \<Rightarrow> True
                | Inr cached \<Rightarrow>
                    target plan \<noteq> NilIface \<and>
                    (case (case targetType env of
                             TPtr (TSlice e) \<Rightarrow>
                               unmarshalCachedResults env (colMap plan) cached
                                 (target plan \<noteq> NilPtr) e
                           | _ \<Rightarrow>
                               unmarshalCachedResults env (colMap plan) cached
                                 False (targetType env)) of
                       Inl (Error e) \<Rightarrow> True
                     | _ \<Rightarrow> False))))"

lemma cachedSelect_error_returns:
  "cacheReadError env plan (fst (Statement_Query statement bvs)) (args statement) \<Longrightarrow>
   cachedSelect env plan (target plan) (targetType env) statement bvs = Inr None"
  unfolding cacheReadError_def cachedSelect_def
  by (auto split: sum.splits failure.splits)

text \<open>
  When the read side fails in one of these ways, \<^verbatim>\<open>Select\<close> sends the statement to the
  transport and returns what the transport returns (its rows, or its error), provided
  \<^verbatim>\<open>cacheResults\<close> returns; the errors of the write side (key computation, serialization,
  encoding) make \<^verbatim>\<open>cacheResults\<close> return early and have no part in the result.
\<close>

lemma cacheResults_error_returns:
  "toCacheFormat env res = Inr d \<Longrightarrow> \<exists>written. cacheResults env plan res statement bvs = Inr written"
  by (simp add: cacheResults_def split: sum.splits option.splits)

lemma Select_cache_error_returns_fall_through:
  assumes "SelectStatement n plan = Inr statement"
      and "target plan \<noteq> NilIface"
      and "cacheReadError env plan (fst (Statement_Query statement (bindVars plan statement)))
             (args statement)"
      and "\<And>res. executorSelect tr (target plan)
                   (fst (Statement_Query statement (bindVars plan statement))) (args statement)
                 = Inr res \<Longrightarrow> \<exists>d. toCacheFormat env res = Inr d"
  shows "fst (Select n env tr plan)
           = (case executorSelect tr (target plan)
                     (fst (Statement_Query statement (bindVars plan statement))) (args statement) of
                Inl e \<Rightarrow> Inl (Error e)
              | Inr res \<Rightarrow> Inr res)"
    and "fst (snd (Select n env tr plan))
           = [(fst (Statement_Query statement (bindVars plan statement)), args statement)]"
proof -
  have none: "cachedSelect env plan (target plan) (targetType env) statement
                (bindVars plan statement) = Inr None"
    by (rule cachedSelect_error_returns[OF assms(3)])
  show "fst (Select n env tr plan)
           = (case executorSelect tr (target plan)
                     (fst (Statement_Query statement (bindVars plan statement))) (args statement) of
                Inl e \<Rightarrow> Inl (Error e)
              | Inr res \<Rightarrow> Inr res)"
  proof (cases "executorSelect tr (target plan)
                  (fst (Statement_Query statement (bindVars plan statement))) (args statement)")
    case (Inl e)
    then show ?thesis using assms(1,2) by (simp add: Select_def none)
  next
    case (Inr res)
    obtain d where "toCacheFormat env res = Inr d" using assms(4)[OF Inr] by blast
    then obtain written where
      "cacheResults env plan res statement (bindVars plan statement) = Inr written"
      using cacheResults_error_returns by blast
    then show ?thesis using assms(1,2) Inr by (simp add: Select_def none)
  qed
  show "fst (snd (Select n env tr plan))
           = [(fst (Statement_Query statement (bindVars plan statement)), args statement)]"
    using assms(1,2)
    by (simp add: Select_def none split: sum.splits)
qed

text \<open>
  \<^verbatim>\<open>Select\<close> on a statement that compiles: a panic of \<^verbatim>\<open>cachedSelect\<close> is the outcome of
  \<^verbatim>\<open>Select\<close>, before anything is sent to the transport; after a nil answer of
  \<^verbatim>\<open>cachedSelect\<close> the rows of the transport are returned once \<^verbatim>\<open>cacheResults\<close> has returned.
\<close>

lemma Select_cache_panic:
  assumes "SelectStatement n plan = Inr statement" and "\<not> cachingDisabled plan"
      and "cachedSelect env plan (target plan) (targetType env) statement
             (bindVars plan statement) = Inl f"
  shows "Select n env tr plan = (Inl f, [], None)"
  by (simp add: Select_def assms)

lemma Select_cache_miss:
  assumes "SelectStatement n plan = Inr statement"
      and "cachedSelect env plan (target plan) (targetType env) statement
             (bindVars plan statement) = Inr None"
      and "target plan \<noteq> NilIface" and "hasCache plan" and "Cacheable env"
      and "\<not> cachingDisabled plan"
      and "executorSelect tr (target plan)
             (fst (Statement_Query statement (bindVars plan statement))) (args statement) = Inr res"
      and "cacheResults env plan res statement (bindVars plan statement) = Inr written"
  shows "Select n env tr plan
           = (Inr res,
              [(fst (Statement_Query statement (bindVars plan statement)), args statement)],
              written)"
  by (simp add: Select_def assms)

text \<open>
  A cache that holds, for every key, a payload with one row of the example struct, and
  what \<^verbatim>\<open>reflect\<close> tells about the example struct (type 1, two fields) as the target of the
  example plan.
\<close>

definition hitCache :: cacheEnv where
  "hitCache =
     \<lparr>Cacheable = True,
      CacheKey = (\<lambda>q a. Inr q),
      cacheGet = (\<lambda>key. Inr ''payload''),
      restoreFromCache = (\<lambda>payload. Inr [CMap [(''id'', CNum 5)]]),
      valueFor = (\<lambda>rows. Inr (Some [])),
      jsonMarshal = (\<lambda>d. Inr ''[]''),
      prepareForCache = (\<lambda>raw. Inr raw),
      targetType = TPtr (TStruct 1),
      structFields = (\<lambda>k. [TOther, TOther]),
      ConvertibleTo = (\<lambda>v t index. True)\<rparr>"

text \<open>
  Claim C8. The claim is that no failure in the cache path reaches the caller of
  \<^verbatim>\<open>Select\<close>, which falls through to the transport; the doc comment of \<^verbatim>\<open>cachedSelect\<close>
  promises nil when there are errors while creating the return value, and that of
  \<^verbatim>\<open>cacheResults\<close> that any failures will be silent. On the example plan with a cache
  (the plan that \<^verbatim>\<open>Query\<close> returns for the example struct: lemma \<open>Query_example_cached\<close>):
  \<^item> when the cache holds one row for the statement, its field is set and then
    \<^verbatim>\<open>reflect.Append\<close> panics, because \<^verbatim>\<open>cachedSelect\<close> passes a pointer to the slice as
    \<^verbatim>\<open>resultSlice\<close>; \<^verbatim>\<open>Select\<close> panics and the transport is not called;
  \<^item> when the cached row is not a map, the type assertion panics, with the same outcome;
  \<^item> when the cached row holds nil for a field, \<^verbatim>\<open>v.Type()\<close> panics, with the same outcome;
  \<^item> when instead the cache's \<^verbatim>\<open>Get\<close> returns an error, \<^verbatim>\<open>Select\<close> sends the statement to
    the transport and returns its rows.
\<close>

theorem Select_cache_hit_panics:
  "SelectStatement 1 ((examplePlan standardDialect)\<lparr>hasCache := True\<rparr>)
     = Inr \<lparr>query = ''SELECT '' @ quoteIdent ''t'' @ ''.'' @ quoteIdent ''id'' @ '' AS id,''
                        @ quoteIdent ''t'' @ ''.'' @ quoteIdent ''name'' @ '' AS name FROM ''
                        @ quoteIdent ''t'', args = []\<rparr>
   \<and> Select 1 hitCache okTransport ((examplePlan standardDialect)\<lparr>hasCache := True\<rparr>)
       = (Inl (Panic ''reflect: call of reflect.Append on ptr Value''), [], None)
   \<and> Select 1 (hitCache\<lparr>restoreFromCache := (\<lambda>payload. Inr [CNum 5])\<rparr>) okTransport
        ((examplePlan standardDialect)\<lparr>hasCache := True\<rparr>)
       = (Inl (Panic ''interface conversion: interface {} is not map[string]interface {}''),
          [], None)
   \<and> Select 1 (hitCache\<lparr>restoreFromCache := (\<lambda>payload. Inr [CMap [(''id'', CNil)]])\<rparr>)
        okTransport ((examplePlan standardDialect)\<lparr>hasCache := True\<rparr>)
       = (Inl (Panic ''reflect: call of reflect.Value.Type on zero Value''), [], None)
   \<and> Select 1 (hitCache\<lparr>cacheGet := (\<lambda>key. Inl (External ''connection refused''))\<rparr>)
        okTransport ((examplePlan standardDialect)\<lparr>hasCache := True\<rparr>)
       = (Inr [StrV ''row''],
          [(''SELECT '' @ quoteIdent ''t'' @ ''.'' @ quoteIdent ''id'' @ '' AS id,''
                        @ quoteIdent ''t'' @ ''.'' @ quoteIdent ''name'' @ '' AS name FROM ''
                        @ quoteIdent ''t'', [])],
          Some (''SELECT '' @ quoteIdent ''t'' @ ''.'' @ quoteIdent ''id'' @ '' AS id,''
                        @ quoteIdent ''t'' @ ''.'' @ quoteIdent ''name'' @ '' AS name FROM ''
                        @ quoteIdent ''t'', ''[]''))"
proof -
  let ?p = "(examplePlan standardDialect)\<lparr>hasCache := True\<rparr>"
  let ?s = "\<lparr>query = ''SELECT '' @ quoteIdent ''t'' @ ''.'' @ quoteIdent ''id'' @ '' AS id,''
                        @ quoteIdent ''t'' @ ''.'' @ quoteIdent ''name'' @ '' AS name FROM ''
                        @ quoteIdent ''t'', args = []\<rparr>"
  have c: "SelectStatement 1 ?p = Inr ?s"
    by (simp add: compile_defs example_defs fieldMapForPointer_def)
  have bv: "bindVars ?p ?s = []" by (simp add: bindVars_def)
  have q: "fst (Statement_Query ?s []) = query ?s" by (simp add: Statement_Query_def)
  have p: "hasCache ?p" "\<not> cachingDisabled ?p" "target ?p = Ptr 8" "target ?p \<noteq> NilIface"
    "colMap ?p = exampleColMap standardDialect"
    by (simp_all add: examplePlan_def)
  have cm: "aliasLoop (exampleColMap standardDialect) ''id''
              = Some (hd (exampleColMap standardDialect))"
    "FieldIndex (column (hd (exampleColMap standardDialect))) = [0]"
    by (simp_all add: exampleColMap_def idColumn_def)
  have k1: "cachedSelect hitCache ?p (target ?p) (targetType hitCache) ?s (bindVars ?p ?s)
              = Inl (Panic ''reflect: call of reflect.Append on ptr Value'')"
    unfolding bv by (simp add: cachedSelect_def p cm hitCache_def)
  have k2: "cachedSelect (hitCache\<lparr>restoreFromCache := (\<lambda>payload. Inr [CNum 5])\<rparr>) ?p (target ?p)
              (targetType (hitCache\<lparr>restoreFromCache := (\<lambda>payload. Inr [CNum 5])\<rparr>)) ?s
              (bindVars ?p ?s)
              = Inl (Panic ''interface conversion: interface {} is not map[string]interface {}'')"
    unfolding bv by (simp add: cachedSelect_def p hitCache_def)
  have k3: "cachedSelect (hitCache\<lparr>restoreFromCache := (\<lambda>payload. Inr [CMap [(''id'', CNil)]])\<rparr>)
              ?p (target ?p)
              (targetType (hitCache\<lparr>restoreFromCache := (\<lambda>payload. Inr [CMap [(''id'', CNil)]])\<rparr>))
              ?s (bindVars ?p ?s)
              = Inl (Panic ''reflect: call of reflect.Value.Type on zero Value'')"
    unfolding bv by (simp add: cachedSelect_def p cm hitCache_def)
  have k4: "cachedSelect (hitCache\<lparr>cacheGet := (\<lambda>key. Inl (External ''connection refused''))\<rparr>)
              ?p (target ?p)
              (targetType (hitCache\<lparr>cacheGet := (\<lambda>key. Inl (External ''connection refused''))\<rparr>))
              ?s (bindVars ?p ?s) = Inr None"
    unfolding bv by (simp add: cachedSelect_def p hitCache_def)
  have t4: "executorSelect okTransport (target ?p) (fst (Statement_Query ?s (bindVars ?p ?s)))
              (args ?s) = Inr [StrV ''row'']"
    by (simp add: okTransport_def)
  have w4: "cacheResults (hitCache\<lparr>cacheGet := (\<lambda>key. Inl (External ''connection refused''))\<rparr>)
              ?p [StrV ''row''] ?s (bindVars ?p ?s) = Inr (Some (query ?s, ''[]''))"
    unfolding bv by (simp add: cacheResults_def toCacheFormat_def hitCache_def Statement_Query_def)
  have e4: "Cacheable (hitCache\<lparr>cacheGet := (\<lambda>key. Inl (External ''connection refused''))\<rparr>)"
    by (simp add: hitCache_def)
  note 1 = Select_cache_panic[OF c p(2) k1, of okTransport]
  note 2 = Select_cache_panic[OF c p(2) k2, of okTransport]
  note 3 = Select_cache_panic[OF c p(2) k3, of okTransport]
  note 4 = Select_cache_miss[OF c k4 p(4) p(1) e4 p(2) t4 w4]
  show ?thesis using c 1 2 3 4 unfolding bv by (simp add: Statement_Query_def)
qed

section \<open>The table/column mapper\<close>

text \<open>
  What \<^verbatim>\<open>mapTable\<close> and \<^verbatim>\<open>mapColumns\<close> read of their target through \<^verbatim>\<open>reflect\<close>:
  \<^item> \<open>tValue\<close>: the target as an interface value (\<open>Ptr a\<close>, \<open>NilPtr\<close>, or a value that is not
    a pointer);
  \<^item> \<open>tType\<close>: its type, an \<open>rtype\<close>;
  \<^item> \<open>sliceFirstNil\<close>: for a pointer to a slice, whether the slice has a first element and
    that element is a nil pointer (a nil or empty slice gets a fresh element);
  \<^item> for the struct that is finally mapped, per field index path: whether the path exists
    (\<^verbatim>\<open>FieldByIndex\<close> and \<^verbatim>\<open>fieldByIndex\<close> panic otherwise), whether the field is exported
    (\<^verbatim>\<open>PkgPath == ""\<close>), and the address of the field.
  The target is an ordinary value: the two branches of \<^verbatim>\<open>mapTable\<close> for targets that are
  themselves query plans (\<^verbatim>\<open>subQuery\<close>) or \<^verbatim>\<open>UnmappedSubQuery\<close> values are not entered.
\<close>

record queryTarget =
  tValue :: val
  tType :: rtype
  sliceFirstNil :: bool
  fieldValid :: "nat list \<Rightarrow> bool"
  fieldExported :: "nat list \<Rightarrow> bool"
  fieldRef :: "nat list \<Rightarrow> nat"

text \<open>
  The value \<^verbatim>\<open>targetVal\<close> is rebound while \<^verbatim>\<open>mapTable\<close> descends; the model follows its
  type and whether it is a nil pointer.

  The slice step: \<^verbatim>\<open>targetVal.Elem()\<close> of a nil pointer is the zero \<^verbatim>\<open>Value\<close>, and \<^verbatim>\<open>IsNil\<close>
  panics on it, as it does on an array. Otherwise \<^verbatim>\<open>targetVal\<close> becomes the first element
  (created when the slice is nil or empty, with a fresh pointee when it is a pointer),
  or the address of the first element when the element is not a pointer.
\<close>

fun sliceStep :: "queryTarget \<Rightarrow> rtype \<Rightarrow> bool \<Rightarrow> failure + (rtype \<times> bool)" where
  "sliceStep t (TPtr (TSlice e)) isNil =
     (if isNil then Inl (Panic ''reflect: call of reflect.Value.IsNil on zero Value'')
      else (case e of
              TPtr e' \<Rightarrow> Inr (TPtr e', sliceFirstNil t)
            | _ \<Rightarrow> Inr (TPtr e, False)))"
| "sliceStep t (TPtr (TArray e)) isNil =
     Inl (Panic ''reflect: call of reflect.Value.IsNil on array or zero Value'')"
| "sliceStep t ty isNil = Inr (ty, isNil)"

text \<open>
  The pointer-to-pointer step, taken only when the target resolved to a field with a
  target table: \<^verbatim>\<open>targetVal = targetVal.Elem()\<close>, and a nil pointee is allocated.
\<close>

fun pointerStep :: "bool \<Rightarrow> rtype \<Rightarrow> rtype \<times> bool \<Rightarrow> failure + (rtype \<times> bool)" where
  "pointerStep True (TPtr (TPtr s)) (ty, isNil) =
     (if isNil then Inl (Panic ''reflect: call of reflect.Value.IsNil on zero Value'')
      else Inr (TPtr s, False))"
| "pointerStep hasTargetTable ty cur = Inr cur"

text \<open>\<^verbatim>\<open>targetVal.Elem().Kind() == reflect.Struct\<close>, with the struct type's identity.\<close>

fun structOfPointer :: "rtype \<times> bool \<Rightarrow> nat option" where
  "structOfPointer (TPtr (TStruct k), isNil) = (if isNil then None else Some k)"
| "structOfPointer cur = None"

text \<open>
  The body of the loop of \<^verbatim>\<open>mapColumns\<close> for one column, and the loop. The accumulator is
  \<^verbatim>\<open>plan.colMap\<close>, \<^verbatim>\<open>plan.lastRefs\<close> and \<^verbatim>\<open>queryableFields\<close>. (The member \<^verbatim>\<open>join\<close> that the
  two loops over \<^verbatim>\<open>joinOps\<close> set is not part of the model's entries.)
\<close>

definition mapColumn ::
  "dialect \<Rightarrow> queryTarget \<Rightarrow> string \<Rightarrow> string \<Rightarrow> ColumnMap
     \<Rightarrow> structColumnMap \<times> sqlFilter list \<times> nat \<Rightarrow> structColumnMap \<times> sqlFilter list \<times> nat" where
  "mapColumn d t pre quotedTableName col acc =
     (case acc of (cm, refs, queryableFields) \<Rightarrow>
        (let fieldPtr = Ptr (fieldRef t (FieldIndex col));
             quotedCol = QuoteField d (ColumnName col);
             referenced =
               (pre \<noteq> ''-'' \<and> pre \<noteq> [] \<and> ReferencedBy col \<noteq> []
                \<and> (case fieldMapForPointer cm fieldPtr of Inl e \<Rightarrow> False | Inr m \<Rightarrow> True));
             refs' =
               (if referenced then
                  (case fieldMapForPointer cm fieldPtr of
                     Inl e \<Rightarrow> refs
                   | Inr m \<Rightarrow>
                       refs @ [reference (quotedTable m) (quotedColumn m) quotedTableName quotedCol])
                else refs);
             fieldMap =
               \<lparr>addr = fieldPtr, selectTarget = fieldPtr, column = col,
                colAlias = (if JoinAlias col \<noteq> [] then pre @ JoinAlias col
                            else pre @ ColumnName col),
                prefix = (if JoinAlias col \<noteq> [] then pre @ JoinPrefix col else pre),
                quotedTable = quotedTableName, quotedColumn = quotedCol,
                doSelect = (\<not> Transient col \<and> pre \<noteq> ''-'' \<and> \<not> referenced)\<rparr>
         in (cm @ [fieldMap], refs',
             if Transient col then queryableFields else Suc queryableFields)))"

fun mapColumnsLoop ::
  "dialect \<Rightarrow> queryTarget \<Rightarrow> string \<Rightarrow> string \<Rightarrow> ColumnMap list
     \<Rightarrow> structColumnMap \<times> sqlFilter list \<times> nat
     \<Rightarrow> failure + (structColumnMap \<times> sqlFilter list \<times> nat)" where
  "mapColumnsLoop d t pre quotedTableName [] acc = Inr acc"
| "mapColumnsLoop d t pre quotedTableName (col # cols) acc =
     (if \<not> fieldValid t (FieldIndex col) then
        Inl (Panic ''reflect: Field index out of range'')
      else if \<not> fieldExported t (FieldIndex col) then
        mapColumnsLoop d t pre quotedTableName cols acc
      else mapColumnsLoop d t pre quotedTableName cols (mapColumn d t pre quotedTableName col acc))"

text \<open>\<^verbatim>\<open>strings.TrimSuffix(prefix, "_")\<close>.\<close>

definition TrimSuffix_underscore :: "string \<Rightarrow> string" where
  "TrimSuffix_underscore s = (if s \<noteq> [] \<and> last s = CHR ''_'' then butlast s else s)"

text \<open>
  \<^verbatim>\<open>func (plan *QueryPlan) mapColumns(parentMap, parent, table, value, prefix, joinOps...)\<close>.
  The entries the loop appended stay in the plan when the function returns its error.
\<close>

definition mapColumns ::
  "QueryPlan \<Rightarrow> queryTarget \<Rightarrow> TableMap \<Rightarrow> string \<Rightarrow> (failure + unit) \<times> QueryPlan" where
  "mapColumns plan t tbl pre =
     (case mapColumnsLoop (dbDialect plan) t pre
             (if pre = [] \<or> pre = ''-''
              then QuotedTableForQuery (dbDialect plan) (SchemaName tbl) (TableName tbl)
              else QuoteField (dbDialect plan) (TrimSuffix_underscore pre))
             (Columns tbl) (colMap plan, lastRefs plan, 0) of
        Inl f \<Rightarrow> (Inl f, plan)
      | Inr (cm, refs, queryableFields) \<Rightarrow>
          (if queryableFields = 0 then Inl (Error NoMappableFields) else Inr (),
           plan\<lparr>colMap := cm, lastRefs := refs\<rparr>))"

text \<open>
  \<^verbatim>\<open>func (plan *QueryPlan) mapTable(targetVal reflect.Value, joinOps ...JoinOp)\<close>, for a
  target that is not a sub-query. \<open>tableFor\<close> is \<^verbatim>\<open>plan.dbMap.TableFor\<close> on struct types.

  \<open>mapTableTarget\<close> is the function up to its call of \<^verbatim>\<open>mapColumns\<close>: the kind check,
  the lookup of the target among the mapped fields (a field with a target table gives
  the table, the prefix and the alias), the descent through a slice and through a
  pointer, the struct check and the table lookup. It yields the table, the prefix and
  the alias. \<open>mapTable\<close> then records the table, resets \<^verbatim>\<open>plan.lastRefs\<close> and maps the
  columns; its result is the table and the alias, or the error, and the plan as the
  function leaves it.
\<close>

definition mapTableTarget ::
  "(nat \<Rightarrow> err + TableMap) \<Rightarrow> QueryPlan \<Rightarrow> queryTarget
     \<Rightarrow> failure + (TableMap \<times> string \<times> string)" where
  "mapTableTarget tableFor plan t =
     (case tType t of
        TPtr elemType \<Rightarrow>
          (case (case joinMapForPointer (colMap plan) (tValue t) of
                   Inl (Panic s) \<Rightarrow> Inl (Panic s)
                 | Inl f \<Rightarrow> Inr None
                 | Inr parentMap \<Rightarrow>
                     Inr (if TargetTable (column parentMap) = None then None else Some parentMap)) of
             Inl f \<Rightarrow> Inl f
           | Inr parent \<Rightarrow>
               (case sliceStep t (tType t) (tValue t = NilPtr) of
                  Inl f \<Rightarrow> Inl f
                | Inr cur1 \<Rightarrow>
                    (case pointerStep (parent \<noteq> None) (tType t) cur1 of
                       Inl f \<Rightarrow> Inl f
                     | Inr cur2 \<Rightarrow>
                         (case structOfPointer cur2 of
                            None \<Rightarrow> Inl (Error NoStructFound)
                          | Some k \<Rightarrow>
                              (case (case parent of
                                       Some parentMap \<Rightarrow>
                                         (case TargetTable (column parentMap) of
                                            Some tt \<Rightarrow> Inr tt
                                          | None \<Rightarrow> tableFor k)
                                     | None \<Rightarrow> tableFor k) of
                                 Inl e \<Rightarrow> Inl (Error e)
                               | Inr targetTable \<Rightarrow>
                                   Inr (targetTable,
                                        (case parent of
                                           Some parentMap \<Rightarrow> prefix parentMap
                                         | None \<Rightarrow> if table plan \<noteq> None then ''-'' else []),
                                        (case parent of
                                           Some parentMap \<Rightarrow> colAlias parentMap
                                         | None \<Rightarrow> if table plan \<noteq> None then ''-'' else [])))))))
      | _ \<Rightarrow> Inl (Error TargetNotPointer))"

definition mapTable ::
  "(nat \<Rightarrow> err + TableMap) \<Rightarrow> QueryPlan \<Rightarrow> queryTarget
     \<Rightarrow> (failure + (TableMap \<times> string)) \<times> QueryPlan" where
  "mapTable tableFor plan t =
     (case mapTableTarget tableFor plan t of
        Inl f \<Rightarrow> (Inl f, plan)
      | Inr (targetTable, pre, al) \<Rightarrow>
          (case mapColumns (plan\<lparr>tables := tables plan @ [targetTable], lastRefs := []\<rparr>)
                  t targetTable pre of
             (Inl f, plan') \<Rightarrow> (Inl f, plan')
           | (Inr u, plan') \<Rightarrow> (Inr (targetTable, al), plan')))"

text \<open>
  \<^verbatim>\<open>func Query(m, exec, target, cache, cachingDisabled, joinOps...)\<close>. The error of the
  first check is recorded and the function goes on to \<^verbatim>\<open>mapTable\<close>; an error of
  \<^verbatim>\<open>mapTable\<close> is recorded and the plan is returned without table.
\<close>

definition newPlan :: "dialect \<Rightarrow> bool \<Rightarrow> bool \<Rightarrow> QueryPlan" where
  "newPlan d cache disabled =
     \<lparr>Errors = [], table = None, dbDialect = d, planQuotedTable = [], target = NilIface,
      colMap = [], joins = [], lastRefs = [], assignCols = [], assignBindVars = [],
      assignArgs = [], filters = NilFilter, orderBy = [], groupBy = [], limit = 0, offset = 0,
      hasCache = cache, cachingDisabled = disabled, tables = []\<rparr>"

definition Query ::
  "(nat \<Rightarrow> err + TableMap) \<Rightarrow> dialect \<Rightarrow> queryTarget \<Rightarrow> bool \<Rightarrow> bool \<Rightarrow> failure + QueryPlan" where
  "Query tableFor d t cache disabled =
     (let plan0 = newPlan d cache disabled;
          plan1 = (if (case tType t of
                         TPtr (TStruct k) \<Rightarrow> tValue t = NilPtr
                       | _ \<Rightarrow> True)
                   then plan0\<lparr>Errors := Errors plan0 @ [TargetNotPointerToStruct]\<rparr>
                   else plan0)
      in case mapTable tableFor plan1 t of
           (Inl (Error e), plan2) \<Rightarrow> Inr (plan2\<lparr>Errors := Errors plan2 @ [e]\<rparr>)
         | (Inl f, plan2) \<Rightarrow> Inl f
         | (Inr (targetTable, a), plan2) \<Rightarrow>
             Inr (plan2\<lparr>target := tValue t, table := Some targetTable,
                        planQuotedTable :=
                          QuotedTableForQuery d (SchemaName targetTable) (TableName targetTable)\<rparr>))"

section \<open>When mapping a target fails\<close>











text \<open>
  The example struct as a target, and a metadata provider that knows its type as type 1.
  \<^verbatim>\<open>Query\<close> maps it to the example plan.
\<close>

definition exampleTarget :: queryTarget where
  "exampleTarget =
     \<lparr>tValue = Ptr 8, tType = TPtr (TStruct 1), sliceFirstNil = False,
      fieldValid = (\<lambda>i. i = [0] \<or> i = [1]), fieldExported = (\<lambda>i. True),
      fieldRef = (\<lambda>i. if i = [0] then 16 else 24)\<rparr>"

definition exampleTableFor :: "nat \<Rightarrow> err + TableMap" where
  "exampleTableFor k = (if k = 1 then Inr exampleTable else Inl (External ''no table found for type''))"

lemma Query_example:
  "Query exampleTableFor d exampleTarget False False = Inr (examplePlan d)"
  by (simp add: Query_def newPlan_def mapTable_def mapTableTarget_def mapColumns_def mapColumn_def
      exampleTarget_def exampleTableFor_def examplePlan_def exampleColMap_def exampleTable_def
      idColumn_def nameColumn_def fieldMapForPointer_def Let_def)

text \<open>
  A pointer to a slice of the example struct as a target: \<^verbatim>\<open>Query\<close> records that the
  target is not a pointer to a struct, goes on, maps the element type, and returns the
  example plan with that error recorded and the table set.
\<close>

definition exampleSliceTarget :: queryTarget where
  "exampleSliceTarget =
     \<lparr>tValue = Ptr 8, tType = TPtr (TSlice (TStruct 1)), sliceFirstNil = False,
      fieldValid = (\<lambda>i. i = [0] \<or> i = [1]), fieldExported = (\<lambda>i. True),
      fieldRef = (\<lambda>i. if i = [0] then 16 else 24)\<rparr>"

lemma Query_slice_example:
  "Query exampleTableFor d exampleSliceTarget False False
     = Inr ((examplePlan d)\<lparr>Errors := [TargetNotPointerToStruct]\<rparr>)"
  by (simp add: Query_def newPlan_def mapTable_def mapTableTarget_def mapColumns_def mapColumn_def
      exampleSliceTarget_def exampleTableFor_def examplePlan_def exampleColMap_def exampleTable_def
      idColumn_def nameColumn_def fieldMapForPointer_def Let_def)

text \<open>
  With a cache, \<^verbatim>\<open>Query\<close> maps the example struct to the example plan with the cache set.
\<close>

lemma Query_example_cached:
  "Query exampleTableFor d exampleTarget True False = Inr ((examplePlan d)\<lparr>hasCache := True\<rparr>)"
  by (simp add: Query_def newPlan_def mapTable_def mapTableTarget_def mapColumns_def mapColumn_def
      exampleTarget_def exampleTableFor_def examplePlan_def exampleColMap_def exampleTable_def
      idColumn_def nameColumn_def fieldMapForPointer_def Let_def)







section \<open>Placeholders and arguments of the WHERE clause\<close>

text \<open>
  The plans of the claim: the root of the WHERE clause is an AND-list of comparison
  filters, given by their triples (left operand, operator, right operand).
  \<^item> \<open>isLiteral\<close>: the operand is a value that is neither a pointer, nor nil, nor a wrapper;
  \<^item> \<open>literalOperand\<close>: the operand is such a value, or a single-value SQL wrapper with no
    \<open>%\<close> in the name of its function around a literal operand; \<open>literalOf\<close> is the value
    inside, \<open>wrapDepth\<close> the number of wrappers around it, and \<open>wrapPrefix\<close> and
    \<open>wrapSuffix\<close> are what the wrappers write before and after the rendered value;
  \<^item> \<open>resolvesPlain\<close>: the operand is a pointer that the column map resolves to a
    queryable entry whose select target was not redirected; \<open>columnText\<close> is the
    \<^verbatim>\<open>table.column\<close> string of that entry;
  \<^item> \<open>literalComparison\<close>: the left operand resolves in this way to a column text without
    \<open>%\<close>, and the right operand is a literal operand;
  \<^item> \<open>whereText\<close>: the comparisons, each rendered as \<open>column op\<close> and the placeholder inside
    the wrappers of the right operand, joined by the separator of the AND-list;
    \<open>leftText\<close> is a comparison up to its placeholder.
\<close>

fun isLiteral :: "val \<Rightarrow> bool" where
  "isLiteral (IntV i) = True"
| "isLiteral (StrV s) = True"
| "isLiteral v = False"

fun literalOperand :: "val \<Rightarrow> bool" where
  "literalOperand (IntV i) = True"
| "literalOperand (StrV s) = True"
| "literalOperand (Wrapper f v) = (CHR ''%'' \<notin> set f \<and> literalOperand v)"
| "literalOperand v = False"

fun literalOf :: "val \<Rightarrow> val" where
  "literalOf (Wrapper f v) = literalOf v"
| "literalOf v = v"

fun wrapDepth :: "val \<Rightarrow> nat" where
  "wrapDepth (Wrapper f v) = Suc (wrapDepth v)"
| "wrapDepth v = 0"

fun wrapPrefix :: "val \<Rightarrow> string" where
  "wrapPrefix (Wrapper f v) = f @ ''('' @ wrapPrefix v"
| "wrapPrefix v = []"

fun wrapSuffix :: "val \<Rightarrow> string" where
  "wrapSuffix (Wrapper f v) = wrapSuffix v @ '')''"
| "wrapSuffix v = []"

definition resolvesPlain :: "structColumnMap \<Rightarrow> val \<Rightarrow> bool" where
  "resolvesPlain cm p =
     (isPtrKind p \<and>
      (case fieldMapForPointer cm p of
         Inl e \<Rightarrow> False
       | Inr m \<Rightarrow> selectTarget m = addr m))"

definition columnText :: "structColumnMap \<Rightarrow> val \<Rightarrow> string" where
  "columnText cm p =
     (case fieldMapForPointer cm p of
        Inl e \<Rightarrow> []
      | Inr m \<Rightarrow> quotedTable m @ ''.'' @ quotedColumn m)"

fun rightOperand :: "val \<times> cmpop \<times> val \<Rightarrow> val" where
  "rightOperand (l, c, r) = r"

fun rightLiteral :: "val \<times> cmpop \<times> val \<Rightarrow> val" where
  "rightLiteral (l, c, r) = literalOf r"

fun renderedOperands :: "structColumnMap \<Rightarrow> val \<times> cmpop \<times> val \<Rightarrow> string list" where
  "renderedOperands cm (l, c, r) =
     [columnText cm l, wrapPrefix r @ BindVarPlaceholder @ wrapSuffix r]"

fun mkComparison :: "val \<times> cmpop \<times> val \<Rightarrow> sqlFilter" where
  "mkComparison (l, c, r) = ComparisonFilter l c r"

fun leftText :: "structColumnMap \<Rightarrow> val \<times> cmpop \<times> val \<Rightarrow> string" where
  "leftText cm (l, c, r) = columnText cm l @ opText c @ wrapPrefix r"

fun renderedComparison :: "structColumnMap \<Rightarrow> val \<times> cmpop \<times> val \<Rightarrow> string" where
  "renderedComparison cm (l, c, r) =
     columnText cm l @ opText c @ wrapPrefix r @ BindVarPlaceholder @ wrapSuffix r"

definition whereText :: "structColumnMap \<Rightarrow> (val \<times> cmpop \<times> val) list \<Rightarrow> string" where
  "whereText cm cs = strings_Join (map (renderedComparison cm) cs) AndSeparator"

fun literalComparison :: "structColumnMap \<Rightarrow> val \<times> cmpop \<times> val \<Rightarrow> bool" where
  "literalComparison cm (l, c, r) =
     (resolvesPlain cm l \<and> literalOperand r \<and> CHR ''%'' \<notin> set (columnText cm l))"

text \<open>
  The statement that \<^verbatim>\<open>SelectStatement\<close> has compiled when it reaches the WHERE clause (the
  selected columns, FROM and the joins), and what it compiles after the WHERE clause
  (GROUP BY, ORDER BY and the limit clauses).
\<close>

definition selectBeforeWhere :: "nat \<Rightarrow> QueryPlan \<Rightarrow> failure + Statement" where
  "selectBeforeWhere n plan0 =
     (case addSelectColumns n plan0 \<lparr>query = ''SELECT '', args = []\<rparr> of
        Inl e \<Rightarrow> Inl e
      | Inr statement \<Rightarrow>
          (let plan = storeJoin plan0 in
           case QuotedTable plan of
             Inl e \<Rightarrow> Inl e
           | Inr qt \<Rightarrow>
               addJoinClause n plan (statement\<lparr>query := query statement @ '' FROM '' @ qt\<rparr>)))"

definition selectAfterWhere :: "nat \<Rightarrow> QueryPlan \<Rightarrow> Statement \<Rightarrow> failure + Statement" where
  "selectAfterWhere n plan0 st2 =
     (let plan = storeJoin plan0 in
      case orderByLoop n (colMap plan) 0 (orderBy plan) (groupByLoop 0 (groupBy plan) st2) of
        Inl e \<Rightarrow> Inl e
      | Inr st3 \<Rightarrow> Inr (addLimitOffset plan st3))"

lemma SelectStatement_phases:
  "SelectStatement n plan =
     (case selectBeforeWhere n plan of
        Inl e \<Rightarrow> Inl e
      | Inr st1 \<Rightarrow>
          (case addWhereClause n (storeJoin plan) st1 of
             Inl e \<Rightarrow> Inl e
           | Inr st2 \<Rightarrow> selectAfterWhere n plan st2))"
  by (simp add: SelectStatement_def addSelectSuffix_def selectBeforeWhere_def
      selectAfterWhere_def Let_def split: sum.splits)

lemma groupByLoop_appends:
  "\<exists>x. query (groupByLoop i gs st) = query st @ x \<and> args (groupByLoop i gs st) = args st"
proof (induction gs arbitrary: i st)
  case Nil
  then show ?case by simp
next
  case (Cons g gs)
  obtain x where "query (groupByLoop (Suc i) gs
        (st\<lparr>query := query st @ (if i = 0 then '' GROUP BY '' else '', '') @ g\<rparr>))
      = query (st\<lparr>query := query st @ (if i = 0 then '' GROUP BY '' else '', '') @ g\<rparr>) @ x"
    and "args (groupByLoop (Suc i) gs
        (st\<lparr>query := query st @ (if i = 0 then '' GROUP BY '' else '', '') @ g\<rparr>))
      = args (st\<lparr>query := query st @ (if i = 0 then '' GROUP BY '' else '', '') @ g\<rparr>)"
    using Cons.IH by blast
  then show ?case by simp
qed

lemma orderByLoop_appends:
  "orderByLoop n cm i obs st = Inr st' \<Longrightarrow>
   \<exists>x a. query st' = query st @ x \<and> args st' = args st @ a"
proof (induction obs arbitrary: i st)
  case Nil
  then show ?case by simp
next
  case (Cons ob obs)
  from Cons.prems obtain newArgs v where
    r: "orderByLoop n cm (Suc i) obs
          (st\<lparr>query := query st @ (if i = 0 then '' ORDER BY '' else '', '') @ order_OrderBy ob v,
              args := args st @ newArgs\<rparr>) = Inr st'"
    by (auto split: sum.splits)
  from Cons.IH[OF r] show ?case by auto
qed

lemma selectAfterWhere_appends:
  assumes "selectAfterWhere n plan st2 = Inr s"
  shows "\<exists>post postArgs. query s = query st2 @ post \<and> args s = args st2 @ postArgs"
proof -
  let ?p = "storeJoin plan"
  from assms obtain st3 where
    o: "orderByLoop n (colMap ?p) 0 (orderBy ?p) (groupByLoop 0 (groupBy ?p) st2) = Inr st3"
    and l: "s = addLimitOffset ?p st3"
    by (auto simp: selectAfterWhere_def Let_def split: sum.splits)
  obtain x where g: "query (groupByLoop 0 (groupBy ?p) st2) = query st2 @ x"
      "args (groupByLoop 0 (groupBy ?p) st2) = args st2"
    using groupByLoop_appends by blast
  obtain y a where oo: "query st3 = query (groupByLoop 0 (groupBy ?p) st2) @ y"
      "args st3 = args (groupByLoop 0 (groupBy ?p) st2) @ a"
    using orderByLoop_appends[OF o] by blast
  show ?thesis
    unfolding l addLimitOffset_query addLimitOffset_args oo g by simp
qed

lemma storeJoin_AndFilter: "filters plan = AndFilter fs \<Longrightarrow> storeJoin plan = plan"
  by (simp add: storeJoin_def)

text \<open>The operands of the comparisons, as \<^verbatim>\<open>argOrColumn\<close> renders them.\<close>

lemma argOrColumn_plain:
  "resolvesPlain cm p \<Longrightarrow> argOrColumn (Suc n) cm p = Inr ([], columnText cm p)"
  by (cases p) (auto simp: resolvesPlain_def columnText_def split: sum.splits)

lemma argOrColumn_literal:
  "isLiteral r \<Longrightarrow> argOrColumn (Suc n) cm r = Inr ([r], BindVarPlaceholder)"
  by (cases r) simp_all

lemma argOrColumn_literalOperand:
  "literalOperand r \<Longrightarrow> wrapDepth r < n \<Longrightarrow>
   argOrColumn n cm r = Inr ([literalOf r], wrapPrefix r @ BindVarPlaceholder @ wrapSuffix r)"
proof (induction r arbitrary: n rule: literalOperand.induct)
  case (1 i)
  then obtain m where "n = Suc m" by (cases n) auto
  then show ?case by simp
next
  case (2 s)
  then obtain m where "n = Suc m" by (cases n) auto
  then show ?case by simp
next
  case (3 f v)
  then obtain m where n: "n = Suc m" by (cases n) auto
  have "literalOperand v" and "wrapDepth v < m" using 3(2,3) n by simp_all
  from 3(1)[OF this] show ?case by (simp add: n WrapSql_def)
qed simp_all

lemma argOrColumn_unmapped:
  "\<forall>m\<in>set cm. addr m \<noteq> Ptr a \<Longrightarrow>
   argOrColumn (Suc n) cm (Ptr a) = Inl (Error (NoMatchingField a))"
  by (simp add: fieldMapForPointer_unregistered)

lemma wrapPrefix_plain: "literalOperand r \<Longrightarrow> CHR ''%'' \<notin> set (wrapPrefix r)"
  by (induction r rule: literalOperand.induct) simp_all

lemma wrapSuffix_plain: "CHR ''%'' \<notin> set (wrapSuffix r)"
  by (induction r rule: wrapSuffix.induct) simp_all

lemma argOrColumns_append:
  "argOrColumns n cm xs = Inr (as, ss) \<Longrightarrow>
   argOrColumns n cm (xs @ ys)
     = (case argOrColumns n cm ys of
          Inl e \<Rightarrow> Inl e
        | Inr (bs, ts) \<Rightarrow> Inr (as @ bs, ss @ ts))"
proof (induction xs arbitrary: as ss)
  case Nil
  then show ?case by (simp split: sum.splits)
next
  case (Cons x xs)
  from Cons.prems obtain a1 s1 a2 s2 where
    x: "argOrColumn n cm x = Inr (a1, s1)" and r: "argOrColumns n cm xs = Inr (a2, s2)"
    and e: "as = a1 @ a2" "ss = s1 # s2"
    by (auto split: sum.splits)
  show ?case using Cons.IH[OF r] x e by (simp split: sum.splits)
qed

lemma argOrColumns_comparisons:
  "\<forall>c\<in>set cs. literalComparison cm c \<Longrightarrow> \<forall>c\<in>set cs. wrapDepth (rightOperand c) < n \<Longrightarrow>
   argOrColumns n cm (AndActualValues (map mkComparison cs))
     = Inr (map rightLiteral cs, concat (map (renderedOperands cm) cs))"
proof (induction cs)
  case Nil
  then show ?case by simp
next
  case (Cons a cs)
  obtain l c r where a: "a = (l, c, r)" by (cases a)
  have pl: "resolvesPlain cm l" and lit: "literalOperand r" and d: "wrapDepth r < n"
    using Cons.prems a by simp_all
  obtain m where n: "n = Suc m" using d by (cases n) auto
  have IH: "argOrColumns n cm (AndActualValues (map mkComparison cs))
     = Inr (map rightLiteral cs, concat (map (renderedOperands cm) cs))"
    using Cons by simp
  have L: "argOrColumn n cm l = Inr ([], columnText cm l)"
    using argOrColumn_plain[OF pl] n by simp
  show ?case
    by (simp add: a IH L argOrColumn_literalOperand[OF lit d] del: argOrColumn.simps)
qed

lemma AndParts_comparisons:
  "AndParts (map mkComparison cs)
       (concat (map (renderedOperands cm) cs))
     = map (renderedComparison cm) cs"
proof (induction cs)
  case Nil
  then show ?case by simp
next
  case (Cons a cs)
  obtain l c r where a: "a = (l, c, r)" by (cases a)
  show ?case using Cons by (simp add: a)
qed

lemma strings_Join_Cons:
  "strings_Join (x # xs) sep = x @ (if xs = [] then [] else sep @ strings_Join xs sep)"
  by (cases xs) simp_all

lemma opText_plain: "CHR ''%'' \<notin> set (opText c)"
  by (cases c) simp_all

lemma count_placeholder_first:
  "count_placeholders (BindVarPlaceholder @ r) = Suc (count_placeholders r)"
  by (simp add: BindVarPlaceholder_def)

lemma leftText_plain: "literalComparison cm c \<Longrightarrow> CHR ''%'' \<notin> set (leftText cm c)"
  using opText_plain wrapPrefix_plain by (cases c) auto

lemma renderedComparison_leftText:
  "renderedComparison cm c = leftText cm c @ BindVarPlaceholder @ wrapSuffix (rightOperand c)"
  by (cases c) simp

lemma count_rendered:
  assumes "literalComparison cm c"
  shows "count_placeholders (renderedComparison cm c @ rest) = Suc (count_placeholders rest)"
proof -
  have "count_placeholders (renderedComparison cm c @ rest)
          = count_placeholders (BindVarPlaceholder @ wrapSuffix (rightOperand c) @ rest)"
    using count_plain_prefix[OF leftText_plain[OF assms]]
    by (simp add: renderedComparison_leftText)
  also have "\<dots> = Suc (count_placeholders (wrapSuffix (rightOperand c) @ rest))"
    by (rule count_placeholder_first)
  also have "\<dots> = Suc (count_placeholders rest)"
    using count_plain_prefix[OF wrapSuffix_plain] by simp
  finally show ?thesis .
qed

lemma count_separator: "count_placeholders (AndSeparator @ r) = count_placeholders r"
  by (rule count_plain_prefix) (simp add: AndSeparator_def)

lemma count_whereText_append:
  "\<forall>c\<in>set cs. literalComparison cm c \<Longrightarrow>
   count_placeholders (strings_Join (map (renderedComparison cm) cs) AndSeparator @ rest)
     = length cs + count_placeholders rest"
proof (induction cs)
  case Nil
  then show ?case by simp
next
  case (Cons a cs)
  have la: "literalComparison cm a" using Cons.prems by simp
  show ?case
  proof (cases cs)
    case Nil
    then show ?thesis using count_rendered[OF la] by simp
  next
    case (Cons b bs)
    have "strings_Join (map (renderedComparison cm) (a # cs)) AndSeparator @ rest
          = renderedComparison cm a @ (AndSeparator
              @ (strings_Join (map (renderedComparison cm) cs) AndSeparator @ rest))"
      using Cons by simp
    then show ?thesis
      using count_rendered[OF la] count_separator Cons.IH Cons.prems by simp
  qed
qed

lemma count_whereText:
  "\<forall>c\<in>set cs. literalComparison cm c \<Longrightarrow> count_placeholders (whereText cm cs) = length cs"
  using count_whereText_append[of cs cm "[]"] by (simp add: whereText_def)

lemma whereText_nonempty: "cs \<noteq> [] \<Longrightarrow> whereText cm cs \<noteq> []"
proof (cases cs)
  case Nil
  assume "cs \<noteq> []" then show ?thesis using Nil by simp
next
  case (Cons a as)
  obtain l c r where a: "a = (l, c, r)" by (cases a)
  show ?thesis unfolding whereText_def Cons
    by (simp add: strings_Join_Cons a BindVarPlaceholder_def del: strings_Join.simps)
qed

lemma addWhereClause_comparisons:
  assumes "filters plan = AndFilter (map mkComparison cs)"
      and "\<forall>c\<in>set cs. literalComparison (colMap plan) c"
      and "\<forall>c\<in>set cs. wrapDepth (rightOperand c) < n"
  shows "addWhereClause n plan st
           = Inr (st\<lparr>query := query st
                          @ (if cs = [] then [] else '' WHERE '' @ whereText (colMap plan) cs),
                     args := args st @ map rightLiteral cs\<rparr>)"
proof (cases "cs = []")
  case True
  then show ?thesis using assms(1) by (simp add: addWhereClause_def AndWhere_def)
next
  case False
  have w: "AndWhere (map mkComparison cs)
            (concat (map (renderedOperands (colMap plan)) cs))
           = whereText (colMap plan) cs"
    by (simp add: AndWhere_def whereText_def AndParts_comparisons)
  show ?thesis
    using False whereText_nonempty[OF False, of "colMap plan"]
    by (simp add: addWhereClause_def assms(1) argOrColumns_comparisons[OF assms(2,3)] w
        del: argOrColumn.simps)
qed

text \<open>
  A right operand that is a pointer which the column map does not hold: the compilation
  of the WHERE clause returns the error of the lookup, whatever follows the comparison.
\<close>

lemma addWhereClause_unmapped_pointer:
  assumes "filters plan = AndFilter (map mkComparison (cs @ (l, op, Ptr a) # rest))"
      and "\<forall>c\<in>set cs. literalComparison (colMap plan) c"
      and "\<forall>c\<in>set cs. wrapDepth (rightOperand c) < n"
      and "0 < n" and "resolvesPlain (colMap plan) l"
      and "\<forall>m\<in>set (colMap plan). addr m \<noteq> Ptr a"
  shows "addWhereClause n plan st = Inl (Error (NoMatchingField a))"
proof -
  obtain m where n: "n = Suc m" using assms(4) by (cases n) auto
  have v: "AndActualValues (map mkComparison (cs @ (l, op, Ptr a) # rest))
             = AndActualValues (map mkComparison cs)
               @ (l # Ptr a # AndActualValues (map mkComparison rest))"
    by (induction cs) auto
  have t: "argOrColumns n (colMap plan) (l # Ptr a # AndActualValues (map mkComparison rest))
             = Inl (Error (NoMatchingField a))"
    using argOrColumn_plain[OF assms(5), of m] argOrColumn_unmapped[OF assms(6), of m]
    by (simp add: n del: argOrColumn.simps)
  have "argOrColumns n (colMap plan)
          (AndActualValues (map mkComparison (cs @ (l, op, Ptr a) # rest)))
          = Inl (Error (NoMatchingField a))"
    unfolding v argOrColumns_append[OF argOrColumns_comparisons[OF assms(2,3)]] t by simp
  then show ?thesis by (simp add: addWhereClause_def assms(1))
qed

text \<open>The position of the placeholder of the i-th comparison in the WHERE clause.\<close>

lemma count_plain: "CHR ''%'' \<notin> set b \<Longrightarrow> count_placeholders b = 0"
  using count_plain_prefix[of b "[]"] by simp

lemma count_append_plain:
  "CHR ''%'' \<notin> set b \<Longrightarrow> a = [] \<or> last a \<noteq> CHR ''%'' \<Longrightarrow>
   count_placeholders (a @ b) = count_placeholders a"
proof (induction a rule: count_placeholders.induct)
  case 1
  then show ?case by (simp add: count_plain)
next
  case (2 c)
  then show ?case by (simp add: count_skip_char count_plain)
next
  case (3 c d cs)
  show ?case
  proof (cases "[c, d] = BindVarPlaceholder")
    case True
    have "cs = [] \<or> last cs \<noteq> CHR ''%''" using 3(4) by (cases cs) auto
    then show ?thesis using True 3(1)[OF True 3(3)] by simp
  next
    case False
    have "last (d # cs) \<noteq> CHR ''%''" using 3(4) by simp
    then show ?thesis using False 3(2)[OF False 3(3)] by simp
  qed
qed

lemma strings_Join_nth:
  "i < length xs \<Longrightarrow>
   strings_Join xs sep =
     (if i = 0 then [] else strings_Join (take i xs) sep @ sep)
       @ xs ! i
       @ (if Suc i = length xs then [] else sep @ strings_Join (drop (Suc i) xs) sep)"
proof (induction xs arbitrary: i)
  case Nil
  then show ?case by simp
next
  case (Cons x xs)
  show ?case
  proof (cases i)
    case 0
    then show ?thesis by (simp add: strings_Join_Cons del: strings_Join.simps)
  next
    case (Suc j)
    then have j: "j < length xs" using Cons.prems by simp
    then have ne: "xs \<noteq> []" by auto
    have tk: "take j xs = [] \<longleftrightarrow> j = 0" using j by (cases xs) auto
    show ?thesis
      using Cons.IH[OF j] Suc ne tk
      by (simp add: strings_Join_Cons del: strings_Join.simps)
  qed
qed

lemma AndSeparator_last: "last AndSeparator \<noteq> CHR ''%''" "AndSeparator \<noteq> []"
  "CHR ''%'' \<notin> set AndSeparator"
  by (simp_all add: AndSeparator_def)

lemma placeholder_position:
  assumes "\<forall>c\<in>set cs. literalComparison cm c" and "i < length cs"
  shows "\<exists>before after.
           whereText cm cs = before @ leftText cm (cs ! i) @ BindVarPlaceholder @ after
         \<and> count_placeholders (before @ leftText cm (cs ! i)) = i"
proof -
  let ?before = "if i = 0 then []
                 else strings_Join (take i (map (renderedComparison cm) cs)) AndSeparator @ AndSeparator"
  let ?after = "wrapSuffix (rightOperand (cs ! i))
                @ (if Suc i = length (map (renderedComparison cm) cs) then []
                   else AndSeparator
                        @ strings_Join (drop (Suc i) (map (renderedComparison cm) cs)) AndSeparator)"
  have split: "whereText cm cs = ?before @ leftText cm (cs ! i) @ BindVarPlaceholder @ ?after"
    using strings_Join_nth[of i "map (renderedComparison cm) cs" AndSeparator] assms(2)
    by (simp add: whereText_def renderedComparison_leftText)
  have li: "literalComparison cm (cs ! i)" using assms by simp
  have lt: "\<forall>c\<in>set (take i cs). literalComparison cm c"
    using assms(1) by (meson in_set_takeD)
  have cb: "count_placeholders ?before = i"
  proof (cases "i = 0")
    case True
    then show ?thesis by simp
  next
    case False
    have "count_placeholders (strings_Join (map (renderedComparison cm) (take i cs)) AndSeparator
            @ AndSeparator) = length (take i cs) + count_placeholders AndSeparator"
      using count_whereText_append[OF lt] by blast
    then show ?thesis using False assms(2) AndSeparator_last(3)
      by (simp add: take_map count_plain)
  qed
  have lb: "?before = [] \<or> last ?before \<noteq> CHR ''%''"
    using AndSeparator_last by simp
  have "count_placeholders (?before @ leftText cm (cs ! i)) = i"
    using count_append_plain[OF leftText_plain[OF li] lb] cb by simp
  then show ?thesis using split by blast
qed

text \<open>
  Claim C2, as amended. For every plan whose WHERE root holds N comparison filters whose
  left operands resolve to queryable columns with no \<open>%\<close> in their quoted names and whose
  right operands are literal operands (values that are neither pointers nor nil, alone
  or inside single-value SQL wrappers), for every bound on the resolution of operands
  that exceeds the number of wrappers around each right operand, and for every
  statement compiled so far:
  \<^item> \<^verbatim>\<open>addWhereClause\<close> appends \<open>WHERE\<close> and the N rendered comparisons to the text and
    exactly the N literals, in the order of the filters, to the argument list;
  \<^item> the clause holds exactly N placeholder tokens;
  \<^item> the placeholder of the i-th comparison is preceded by exactly i placeholders
    (counting from 0), while the i-th appended argument is the literal of that
    comparison;
  \<^item> \<^verbatim>\<open>SelectStatement\<close> is the compilation of the selected columns, FROM and the joins,
    then this clause and these arguments, then the compilation of GROUP BY, ORDER BY and
    the limit clauses; so in every statement it returns, the clause follows the text
    and the N literals follow the arguments compiled before the WHERE clause, and what
    is compiled afterwards follows them;
  \<^item> when a comparison is added whose right operand is a pointer that the column map does
    not hold, the compilation returns the error of the lookup instead.
\<close>

theorem SelectStatement_where_placeholders:
  assumes "filters plan = AndFilter (map mkComparison cs)"
      and "\<forall>c\<in>set cs. literalComparison (colMap plan) c"
      and "\<forall>c\<in>set cs. wrapDepth (rightOperand c) < n"
  shows "addWhereClause n plan st
           = Inr (st\<lparr>query := query st
                          @ (if cs = [] then [] else '' WHERE '' @ whereText (colMap plan) cs),
                     args := args st @ map rightLiteral cs\<rparr>)
       \<and> count_placeholders (whereText (colMap plan) cs) = length cs
       \<and> (\<forall>i<length cs. \<exists>before after.
             whereText (colMap plan) cs
               = before @ leftText (colMap plan) (cs ! i) @ BindVarPlaceholder @ after
           \<and> count_placeholders (before @ leftText (colMap plan) (cs ! i)) = i
           \<and> map rightLiteral cs ! i = rightLiteral (cs ! i))
       \<and> SelectStatement n plan
           = (case selectBeforeWhere n plan of
                Inl f \<Rightarrow> Inl f
              | Inr st1 \<Rightarrow>
                  selectAfterWhere n plan
                    (st1\<lparr>query := query st1
                            @ (if cs = [] then [] else '' WHERE '' @ whereText (colMap plan) cs),
                         args := args st1 @ map rightLiteral cs\<rparr>))
       \<and> (\<forall>s. SelectStatement n plan = Inr s \<longrightarrow>
            (\<exists>st1 post postArgs.
               selectBeforeWhere n plan = Inr st1
             \<and> query s = query st1
                 @ (if cs = [] then [] else '' WHERE '' @ whereText (colMap plan) cs) @ post
             \<and> args s = args st1 @ map rightLiteral cs @ postArgs))
       \<and> (\<forall>l op a rest.
             0 < n \<and> resolvesPlain (colMap plan) l \<and> (\<forall>m\<in>set (colMap plan). addr m \<noteq> Ptr a) \<longrightarrow>
             addWhereClause n
               (plan\<lparr>filters := AndFilter (map mkComparison (cs @ (l, op, Ptr a) # rest))\<rparr>) st
               = Inl (Error (NoMatchingField a)))"
proof (intro conjI allI impI)
  show "addWhereClause n plan st
           = Inr (st\<lparr>query := query st
                          @ (if cs = [] then [] else '' WHERE '' @ whereText (colMap plan) cs),
                     args := args st @ map rightLiteral cs\<rparr>)"
    by (rule addWhereClause_comparisons[OF assms])
next
  show "count_placeholders (whereText (colMap plan) cs) = length cs"
    by (rule count_whereText[OF assms(2)])
next
  fix i assume i: "i < length cs"
  obtain before after where
    "whereText (colMap plan) cs
       = before @ leftText (colMap plan) (cs ! i) @ BindVarPlaceholder @ after"
    "count_placeholders (before @ leftText (colMap plan) (cs ! i)) = i"
    using placeholder_position[OF assms(2) i] by blast
  then show "\<exists>before after.
             whereText (colMap plan) cs
               = before @ leftText (colMap plan) (cs ! i) @ BindVarPlaceholder @ after
           \<and> count_placeholders (before @ leftText (colMap plan) (cs ! i)) = i
           \<and> map rightLiteral cs ! i = rightLiteral (cs ! i)"
    using i by auto
next
  show "SelectStatement n plan
           = (case selectBeforeWhere n plan of
                Inl f \<Rightarrow> Inl f
              | Inr st1 \<Rightarrow>
                  selectAfterWhere n plan
                    (st1\<lparr>query := query st1
                            @ (if cs = [] then [] else '' WHERE '' @ whereText (colMap plan) cs),
                         args := args st1 @ map rightLiteral cs\<rparr>))"
    unfolding SelectStatement_phases storeJoin_AndFilter[OF assms(1)]
    by (simp add: addWhereClause_comparisons[OF assms] cong: sum.case_cong)
next
  fix s assume s: "SelectStatement n plan = Inr s"
  let ?W = "if cs = [] then [] else '' WHERE '' @ whereText (colMap plan) cs"
  from s obtain st1 where b: "selectBeforeWhere n plan = Inr st1"
    and a: "selectAfterWhere n plan
              (st1\<lparr>query := query st1 @ ?W, args := args st1 @ map rightLiteral cs\<rparr>) = Inr s"
    unfolding SelectStatement_phases storeJoin_AndFilter[OF assms(1)]
    by (auto simp: addWhereClause_comparisons[OF assms] split: sum.splits)
  obtain post postArgs where
    "query s = query (st1\<lparr>query := query st1 @ ?W, args := args st1 @ map rightLiteral cs\<rparr>)
                 @ post"
    "args s = args (st1\<lparr>query := query st1 @ ?W, args := args st1 @ map rightLiteral cs\<rparr>)
                @ postArgs"
    using selectAfterWhere_appends[OF a] by blast
  then have "query s = query st1 @ ?W @ post" and "args s = args st1 @ map rightLiteral cs @ postArgs"
    by simp_all
  then show "\<exists>st1 post postArgs.
               selectBeforeWhere n plan = Inr st1
             \<and> query s = query st1 @ ?W @ post
             \<and> args s = args st1 @ map rightLiteral cs @ postArgs"
    using b by blast
next
  fix l op a rest
  assume h: "0 < n \<and> resolvesPlain (colMap plan) l \<and> (\<forall>m\<in>set (colMap plan). addr m \<noteq> Ptr a)"
  show "addWhereClause n
          (plan\<lparr>filters := AndFilter (map mkComparison (cs @ (l, op, Ptr a) # rest))\<rparr>) st
          = Inl (Error (NoMatchingField a))"
    using addWhereClause_unmapped_pointer[of
        "plan\<lparr>filters := AndFilter (map mkComparison (cs @ (l, op, Ptr a) # rest))\<rparr>"
        cs l op a rest n st] assms(2,3) h
    by simp
qed

text \<open>
  A plan with a join whose ON clause holds a literal, and two comparisons, the second
  with a wrapped literal, for the run on a concrete input.
\<close>

definition exampleJoin :: JoinFilter where
  "exampleJoin =
     \<lparr>JoinType = ''INNER'', QuotedJoinTable = quoteIdent ''u'', QuotedAlias = [],
      onFilters = [ComparisonFilter (Ptr 16) OpEqual (IntV 7)]\<rparr>"

definition twoComparisons :: "(val \<times> cmpop \<times> val) list" where
  "twoComparisons =
     [(Ptr 16, OpEqual, IntV 5), (Ptr 24, OpLess, Wrapper ''lower'' (StrV ''m''))]"

definition joinedPlan :: QueryPlan where
  "joinedPlan =
     (examplePlan standardDialect)
       \<lparr>joins := [exampleJoin], filters := AndFilter (map mkComparison twoComparisons)\<rparr>"

theorem SelectStatement_where_placeholders_witness:
  "filters joinedPlan = AndFilter (map mkComparison twoComparisons)
   \<and> literalComparison (colMap joinedPlan) (Ptr 16, OpEqual, IntV 5)
   \<and> literalComparison (colMap joinedPlan) (Ptr 24, OpLess, Wrapper ''lower'' (StrV ''m''))
   \<and> wrapDepth (IntV 5) < 2 \<and> wrapDepth (Wrapper ''lower'' (StrV ''m'')) < 2
   \<and> SelectStatement 2 joinedPlan
       = Inr \<lparr>query = ''SELECT '' @ quoteIdent ''t'' @ ''.'' @ quoteIdent ''id'' @ '' AS id,''
                        @ quoteIdent ''t'' @ ''.'' @ quoteIdent ''name'' @ '' AS name FROM ''
                        @ quoteIdent ''t'' @ '' INNER JOIN '' @ quoteIdent ''u'' @ '' ON ''
                        @ quoteIdent ''t'' @ ''.'' @ quoteIdent ''id'' @ '' = %s''
                        @ '' WHERE '' @ quoteIdent ''t'' @ ''.'' @ quoteIdent ''id''
                        @ '' = %s AND '' @ quoteIdent ''t'' @ ''.'' @ quoteIdent ''name''
                        @ '' < lower(%s)'',
              args = [IntV 7, IntV 5, StrV ''m'']\<rparr>
   \<and> count_placeholders (whereText (colMap joinedPlan) twoComparisons) = 2
   \<and> addWhereClause 2
        (joinedPlan\<lparr>filters := AndFilter (map mkComparison
                                  (twoComparisons @ [(Ptr 16, OpEqual, Ptr 99)]))\<rparr>)
        \<lparr>query = [], args = []\<rparr>
       = Inl (Error (NoMatchingField 99))"
proof -
  have f: "filters joinedPlan = AndFilter (map mkComparison twoComparisons)"
    by (simp add: joinedPlan_def)
  have cm: "colMap joinedPlan = exampleColMap standardDialect"
    by (simp add: joinedPlan_def examplePlan_def)
  have r16: "resolvesPlain (exampleColMap standardDialect) (Ptr 16)"
    by (simp add: resolvesPlain_def fieldMapForPointer_def example_defs)
  have l1: "literalComparison (colMap joinedPlan) (Ptr 16, OpEqual, IntV 5)"
    unfolding cm by (simp add: resolvesPlain_def columnText_def fieldMapForPointer_def example_defs)
  have l2: "literalComparison (colMap joinedPlan) (Ptr 24, OpLess, Wrapper ''lower'' (StrV ''m''))"
    unfolding cm by (simp add: resolvesPlain_def columnText_def fieldMapForPointer_def example_defs)
  have l: "\<forall>c\<in>set twoComparisons. literalComparison (colMap joinedPlan) c"
    using l1 l2 by (simp add: twoComparisons_def)
  have d: "\<forall>c\<in>set twoComparisons. wrapDepth (rightOperand c) < 2"
    by (simp add: twoComparisons_def)
  have d1: "wrapDepth (IntV 5) < 2" "wrapDepth (Wrapper ''lower'' (StrV ''m'')) < 2" by simp_all
  have un: "\<forall>m\<in>set (colMap joinedPlan). addr m \<noteq> Ptr 99"
    unfolding cm by (simp add: exampleColMap_def)
  let ?b = "\<lparr>query = ''SELECT '' @ quoteIdent ''t'' @ ''.'' @ quoteIdent ''id'' @ '' AS id,''
                        @ quoteIdent ''t'' @ ''.'' @ quoteIdent ''name'' @ '' AS name FROM ''
                        @ quoteIdent ''t'' @ '' INNER JOIN '' @ quoteIdent ''u'' @ '' ON ''
                        @ quoteIdent ''t'' @ ''.'' @ quoteIdent ''id'' @ '' = %s'',
              args = [IntV 7]\<rparr>"
  have b: "selectBeforeWhere 2 joinedPlan = Inr ?b"
    by (simp add: selectBeforeWhere_def joinedPlan_def exampleJoin_def compile_defs example_defs
        fieldMapForPointer_def JoinClause_def AndWhere_def numeral_2_eq_2)
  have a: "\<And>st. selectAfterWhere 2 joinedPlan st = Inr st"
    by (simp add: selectAfterWhere_def joinedPlan_def compile_defs example_defs)
  have w: "whereText (colMap joinedPlan) twoComparisons
            = quoteIdent ''t'' @ ''.'' @ quoteIdent ''id'' @ '' = %s AND ''
              @ quoteIdent ''t'' @ ''.'' @ quoteIdent ''name'' @ '' < lower(%s)''"
    unfolding cm
    by (simp add: whereText_def twoComparisons_def columnText_def fieldMapForPointer_def
        example_defs AndSeparator_def BindVarPlaceholder_def)
  have ne: "twoComparisons \<noteq> []" "length twoComparisons = 2"
    "map rightLiteral twoComparisons = [IntV 5, StrV ''m'']"
    by (simp_all add: twoComparisons_def)
  note t = SelectStatement_where_placeholders[OF f l d, of "\<lparr>query = [], args = []\<rparr>"]
  from t have s0: "SelectStatement 2 joinedPlan
           = (case selectBeforeWhere 2 joinedPlan of
                Inl f \<Rightarrow> Inl f
              | Inr st1 \<Rightarrow>
                  selectAfterWhere 2 joinedPlan
                    (st1\<lparr>query := query st1
                            @ (if twoComparisons = [] then []
                               else '' WHERE '' @ whereText (colMap joinedPlan) twoComparisons),
                         args := args st1 @ map rightLiteral twoComparisons\<rparr>))"
    by blast
  have s: "SelectStatement 2 joinedPlan
       = Inr \<lparr>query = ''SELECT '' @ quoteIdent ''t'' @ ''.'' @ quoteIdent ''id'' @ '' AS id,''
                        @ quoteIdent ''t'' @ ''.'' @ quoteIdent ''name'' @ '' AS name FROM ''
                        @ quoteIdent ''t'' @ '' INNER JOIN '' @ quoteIdent ''u'' @ '' ON ''
                        @ quoteIdent ''t'' @ ''.'' @ quoteIdent ''id'' @ '' = %s''
                        @ '' WHERE '' @ quoteIdent ''t'' @ ''.'' @ quoteIdent ''id''
                        @ '' = %s AND '' @ quoteIdent ''t'' @ ''.'' @ quoteIdent ''name''
                        @ '' < lower(%s)'',
              args = [IntV 7, IntV 5, StrV ''m'']\<rparr>"
    unfolding s0 b by (simp add: a w ne)
  from t have c0: "count_placeholders (whereText (colMap joinedPlan) twoComparisons)
                     = length twoComparisons"
    by blast
  have c: "count_placeholders (whereText (colMap joinedPlan) twoComparisons) = 2"
    using c0 by (simp add: ne)
  from t have e0: "\<forall>l op a rest.
             0 < (2::nat) \<and> resolvesPlain (colMap joinedPlan) l
               \<and> (\<forall>m\<in>set (colMap joinedPlan). addr m \<noteq> Ptr a) \<longrightarrow>
             addWhereClause 2
               (joinedPlan\<lparr>filters := AndFilter (map mkComparison
                                         (twoComparisons @ (l, op, Ptr a) # rest))\<rparr>)
               \<lparr>query = [], args = []\<rparr>
               = Inl (Error (NoMatchingField a))"
    by blast
  have e: "addWhereClause 2
        (joinedPlan\<lparr>filters := AndFilter (map mkComparison
                                  (twoComparisons @ [(Ptr 16, OpEqual, Ptr 99)]))\<rparr>)
        \<lparr>query = [], args = []\<rparr>
       = Inl (Error (NoMatchingField 99))"
  proof -
    from e0 have "0 < (2::nat) \<and> resolvesPlain (colMap joinedPlan) (Ptr 16)
               \<and> (\<forall>m\<in>set (colMap joinedPlan). addr m \<noteq> Ptr 99) \<longrightarrow>
             addWhereClause 2
               (joinedPlan\<lparr>filters := AndFilter (map mkComparison
                                         (twoComparisons @ (Ptr 16, OpEqual, Ptr 99) # []))\<rparr>)
               \<lparr>query = [], args = []\<rparr>
               = Inl (Error (NoMatchingField 99))"
      by blast
    then show ?thesis using r16 un unfolding cm by simp
  qed
  show ?thesis using f l1 l2 d1 s c e by blast
qed

text \<open>
  The claim as it is written, for every plan and every right operand that is not a mapped
  field pointer, fails
  \<^item> when a quoted name holds the placeholder token: the first plan below has one
    comparison with a literal, its WHERE clause holds two placeholder tokens, and the
    first bind variable is substituted into the column name;
  \<^item> when the right operand is a pointer that the column map does not hold: the
    compilation returns the error of the lookup and no statement;
  \<^item> when the right operand is a multi-value wrapper: one comparison gives two
    placeholders and two arguments.
\<close>

definition tokenNamedColMap :: structColumnMap where
  "tokenNamedColMap =
     [\<lparr>addr = Ptr 16, selectTarget = Ptr 16, column = ColumnMap ''%s'' False [0] [] [] [] None,
       colAlias = ''%s'', prefix = [], quotedTable = quoteIdent ''t'',
       quotedColumn = quoteIdent ''%s'', doSelect = True\<rparr>]"

theorem where_placeholders_counterexample:
  "addWhereClause 1
     ((examplePlan standardDialect)
        \<lparr>colMap := tokenNamedColMap,
         filters := AndFilter [ComparisonFilter (Ptr 16) OpEqual (IntV 5)]\<rparr>)
     \<lparr>query = [], args = []\<rparr>
     = Inr \<lparr>query = '' WHERE '' @ quoteIdent ''t'' @ ''.'' @ quoteIdent ''%s'' @ '' = %s'',
            args = [IntV 5]\<rparr>
   \<and> count_placeholders (quoteIdent ''t'' @ ''.'' @ quoteIdent ''%s'' @ '' = %s'') = 2
   \<and> length [ComparisonFilter (Ptr 16) OpEqual (IntV 5)] = 1
   \<and> fst (Statement_Query
            \<lparr>query = '' WHERE '' @ quoteIdent ''t'' @ ''.'' @ quoteIdent ''%s'' @ '' = %s'',
             args = [IntV 5]\<rparr> [''$1''])
       = '' WHERE '' @ quoteIdent ''t'' @ ''.'' @ quoteIdent ''$1'' @ '' = %s''
   \<and> SelectStatement 1
        ((examplePlan standardDialect)
           \<lparr>filters := AndFilter [ComparisonFilter (Ptr 16) OpEqual (Ptr 99)]\<rparr>)
       = Inl (Error (NoMatchingField 99))
   \<and> SelectStatement 2
        ((examplePlan standardDialect)
           \<lparr>filters := AndFilter [ComparisonFilter (Ptr 16) OpEqual
                                    (MultiWrapper ''coalesce'' [IntV 1, IntV 2])]\<rparr>)
       = Inr \<lparr>query = ''SELECT '' @ quoteIdent ''t'' @ ''.'' @ quoteIdent ''id'' @ '' AS id,''
                        @ quoteIdent ''t'' @ ''.'' @ quoteIdent ''name'' @ '' AS name FROM ''
                        @ quoteIdent ''t'' @ '' WHERE '' @ quoteIdent ''t'' @ ''.''
                        @ quoteIdent ''id'' @ '' = coalesce(%s, %s)'',
              args = [IntV 1, IntV 2]\<rparr>
   \<and> count_placeholders (quoteIdent ''t'' @ ''.'' @ quoteIdent ''id'' @ '' = coalesce(%s, %s)'') = 2"
proof -
  have 1: "addWhereClause 1
     ((examplePlan standardDialect)
        \<lparr>colMap := tokenNamedColMap,
         filters := AndFilter [ComparisonFilter (Ptr 16) OpEqual (IntV 5)]\<rparr>)
     \<lparr>query = [], args = []\<rparr>
     = Inr \<lparr>query = '' WHERE '' @ quoteIdent ''t'' @ ''.'' @ quoteIdent ''%s'' @ '' = %s'',
            args = [IntV 5]\<rparr>
   \<and> count_placeholders (quoteIdent ''t'' @ ''.'' @ quoteIdent ''%s'' @ '' = %s'') = 2
   \<and> length [ComparisonFilter (Ptr 16) OpEqual (IntV 5)] = 1
   \<and> fst (Statement_Query
            \<lparr>query = '' WHERE '' @ quoteIdent ''t'' @ ''.'' @ quoteIdent ''%s'' @ '' = %s'',
             args = [IntV 5]\<rparr> [''$1''])
       = '' WHERE '' @ quoteIdent ''t'' @ ''.'' @ quoteIdent ''$1'' @ '' = %s''"
    by (simp add: addWhereClause_def AndWhere_def tokenNamedColMap_def fieldMapForPointer_def
        quoteIdent_def BindVarPlaceholder_def AndSeparator_def Statement_Query_def Replace1.simps)
  have 2: "SelectStatement 1
        ((examplePlan standardDialect)
           \<lparr>filters := AndFilter [ComparisonFilter (Ptr 16) OpEqual (Ptr 99)]\<rparr>)
       = Inl (Error (NoMatchingField 99))"
    by (simp add: compile_defs example_defs fieldMapForPointer_def)
  have 3: "SelectStatement 2
        ((examplePlan standardDialect)
           \<lparr>filters := AndFilter [ComparisonFilter (Ptr 16) OpEqual
                                    (MultiWrapper ''coalesce'' [IntV 1, IntV 2])]\<rparr>)
       = Inr \<lparr>query = ''SELECT '' @ quoteIdent ''t'' @ ''.'' @ quoteIdent ''id'' @ '' AS id,''
                        @ quoteIdent ''t'' @ ''.'' @ quoteIdent ''name'' @ '' AS name FROM ''
                        @ quoteIdent ''t'' @ '' WHERE '' @ quoteIdent ''t'' @ ''.''
                        @ quoteIdent ''id'' @ '' = coalesce(%s, %s)'',
              args = [IntV 1, IntV 2]\<rparr>"
    by (simp add: compile_defs example_defs fieldMapForPointer_def AndWhere_def MultiWrapSql_def
        numeral_2_eq_2)
  have 4: "count_placeholders (quoteIdent ''t'' @ ''.'' @ quoteIdent ''id'' @ '' = coalesce(%s, %s)'') = 2"
    by (simp add: quoteIdent_def BindVarPlaceholder_def)
  show ?thesis using 1 2 3 4 by blast
qed


section \<open>Assignments before WHERE arguments\<close>

lemma storeJoin_keeps:
  "assignCols (storeJoin plan) = assignCols plan" "assignArgs (storeJoin plan) = assignArgs plan"
  "assignBindVars (storeJoin plan) = assignBindVars plan"
  by (simp_all add: storeJoin_def split: multiFilter.splits)

lemma Assign_dialect: "Assign plan p v = Inr p1 \<Longrightarrow> dbDialect p1 = dbDialect plan"
  by (auto simp: Assign_def split: sum.splits failure.splits)

lemma plan_Where_dialect: "dbDialect (plan_Where plan fs) = dbDialect plan"
  by (simp add: plan_Where_def storeJoin_fields)

lemma plan_Equal_dialect: "plan_Equal plan p v = Inr p3 \<Longrightarrow> dbDialect p3 = dbDialect plan"
  by (auto simp: plan_Equal_def plan_Filter_def split: multiFilter.splits)

text \<open>
  Claim C4. For a plan without recorded errors and without earlier assignments, mapped to
  a table \<open>t\<close>, in which the pointer to the name field resolves to a queryable column and
  the pointer to the id field resolves to a queryable column of the plan's table: the
  chain \<^verbatim>\<open>Assign(&ref.Name, "x").Where().Equal(&ref.ID, 5)\<close> returns a plan whose \<^verbatim>\<open>Update\<close>
  compiles the statement \<^verbatim>\<open>UPDATE table SET name-col=placeholder WHERE table.id-col = placeholder\<close>
  with the argument list \<^verbatim>\<open>["x", 5]\<close>, the assignment argument first, and sends that
  statement (with the dialect's bind variables substituted) and those arguments to the
  transport. The bound on the resolution of operands is any positive number.
\<close>

theorem Assign_Where_Equal_Update:
  assumes "Errors plan = []" and "assignCols plan = []" and "assignArgs plan = []"
      and "table plan = Some t"
      and "fieldMapForPointer (colMap plan) namePtr = Inr nameMap"
      and "resolvesPlain (colMap plan) idPtr"
      and "fieldMapForPointer (colMap plan) idPtr = Inr idMap"
      and "quotedTable idMap = QuotedTableForQuery (dbDialect plan) (SchemaName t) (TableName t)"
  shows "\<exists>p1 p3.
           Assign plan namePtr (StrV ''x'') = Inr p1
         \<and> plan_Equal (plan_Where p1 []) idPtr (IntV 5) = Inr p3
         \<and> UpdateStatement (Suc n) p3
             = Inr \<lparr>query = ''UPDATE ''
                       @ QuotedTableForQuery (dbDialect plan) (SchemaName t) (TableName t)
                       @ '' SET '' @ quotedColumn nameMap @ ''='' @ BindVarPlaceholder
                       @ '' WHERE ''
                       @ QuotedTableForQuery (dbDialect plan) (SchemaName t) (TableName t)
                       @ ''.'' @ quotedColumn idMap @ '' = '' @ BindVarPlaceholder,
                    args = [StrV ''x'', IntV 5]\<rparr>
         \<and> Update (Suc n) tr p3
             = execStatement tr p3
                 \<lparr>query = ''UPDATE ''
                       @ QuotedTableForQuery (dbDialect plan) (SchemaName t) (TableName t)
                       @ '' SET '' @ quotedColumn nameMap @ ''='' @ BindVarPlaceholder
                       @ '' WHERE ''
                       @ QuotedTableForQuery (dbDialect plan) (SchemaName t) (TableName t)
                       @ ''.'' @ quotedColumn idMap @ '' = '' @ BindVarPlaceholder,
                    args = [StrV ''x'', IntV 5]\<rparr>"
proof -
  let ?T = "QuotedTableForQuery (dbDialect plan) (SchemaName t) (TableName t)"
  let ?p1 = "plan\<lparr>assignCols := assignCols plan @ [quotedColumn nameMap],
                    assignBindVars := assignBindVars plan
                       @ [BindVar (dbDialect plan) (length (assignBindVars plan))],
                    assignArgs := assignArgs plan @ [StrV ''x'']\<rparr>"
  let ?p3 = "(storeJoin ?p1)\<lparr>filters := AndFilter [filters_Equal idPtr (IntV 5)]\<rparr>"
  let ?st = "\<lparr>query = ''UPDATE '' @ ?T @ '' SET '' @ quotedColumn nameMap @ ''='' @ BindVarPlaceholder
                       @ '' WHERE '' @ ?T @ ''.'' @ quotedColumn idMap @ '' = '' @ BindVarPlaceholder,
                    args = [StrV ''x'', IntV 5]\<rparr>"
  have a: "Assign plan namePtr (StrV ''x'') = Inr ?p1"
    by (simp add: Assign_def LocateColumn_def assms(5))
  have e: "plan_Equal (plan_Where ?p1 []) idPtr (IntV 5) = Inr ?p3"
    by (simp add: plan_Equal_def plan_Filter_def plan_Where_def)
  have f3: "filters ?p3 = AndFilter [ComparisonFilter idPtr OpEqual (IntV 5)]"
    "colMap ?p3 = colMap plan" "table ?p3 = Some t" "dbDialect ?p3 = dbDialect plan"
    "assignCols ?p3 = [quotedColumn nameMap]" "assignArgs ?p3 = [StrV ''x'']" "Errors ?p3 = []"
    using assms(1-4) by (simp_all add: filters_Equal_def storeJoin_fields storeJoin_keeps)
  have ct: "columnText (colMap plan) idPtr = ?T @ ''.'' @ quotedColumn idMap"
    by (simp add: columnText_def assms(7,8))
  have ao: "argOrColumns (Suc n) (colMap plan) [idPtr, IntV 5]
              = Inr ([IntV 5], [columnText (colMap plan) idPtr, BindVarPlaceholder])"
    using argOrColumn_plain[OF assms(6), of n]
    by (simp add: argOrColumn_literal del: argOrColumn.simps)
  have w: "addWhereClause (Suc n) ?p3
             \<lparr>query = ''UPDATE '' @ ?T @ '' SET '' @ quotedColumn nameMap @ ''='' @ BindVarPlaceholder,
              args = [StrV ''x'']\<rparr> = Inr ?st"
    unfolding addWhereClause_def f3 using ao
    by (simp add: AndWhere_def ct BindVarPlaceholder_def del: argOrColumn.simps argOrColumns.simps)
  have u: "UpdateStatement (Suc n) ?p3 = Inr ?st"
    unfolding UpdateStatement_def f3 using w by simp
  have up: "Update (Suc n) tr ?p3 = execStatement tr ?p3 ?st"
    unfolding Update_def f3 u by simp
  show ?thesis using a e u up by blast
qed


theorem Assign_Where_Equal_Update_witness:
  "Query exampleTableFor standardDialect exampleTarget False False
     = Inr (examplePlan standardDialect)
   \<and> (\<exists>p1 p3.
         Assign (examplePlan standardDialect) (Ptr 24) (StrV ''x'') = Inr p1
       \<and> plan_Equal (plan_Where p1 []) (Ptr 16) (IntV 5) = Inr p3
       \<and> UpdateStatement 1 p3
           = Inr \<lparr>query = ''UPDATE '' @ quoteIdent ''t'' @ '' SET '' @ quoteIdent ''name''
                            @ ''=%s WHERE '' @ quoteIdent ''t'' @ ''.'' @ quoteIdent ''id''
                            @ '' = %s'',
                  args = [StrV ''x'', IntV 5]\<rparr>
       \<and> Update 1 okTransport p3
           = (Inr 1,
              [(''UPDATE '' @ quoteIdent ''t'' @ '' SET '' @ quoteIdent ''name''
                  @ ''=$1 WHERE '' @ quoteIdent ''t'' @ ''.'' @ quoteIdent ''id'' @ '' = $2'',
                [StrV ''x'', IntV 5])]))"
proof -
  let ?P = "examplePlan standardDialect"
  let ?idMap = "\<lparr>addr = Ptr 16, selectTarget = Ptr 16, column = idColumn, colAlias = ''id'',
       prefix = [], quotedTable = quoteIdent ''t'', quotedColumn = quoteIdent ''id'',
       doSelect = True\<rparr>"
  let ?nameMap = "\<lparr>addr = Ptr 24, selectTarget = Ptr 24, column = nameColumn, colAlias = ''name'',
       prefix = [], quotedTable = quoteIdent ''t'', quotedColumn = quoteIdent ''name'',
       doSelect = True\<rparr>"
  let ?st = "\<lparr>query = ''UPDATE '' @ quoteIdent ''t'' @ '' SET '' @ quoteIdent ''name''
                            @ ''=%s WHERE '' @ quoteIdent ''t'' @ ''.'' @ quoteIdent ''id''
                            @ '' = %s'',
                  args = [StrV ''x'', IntV 5]\<rparr>"
  have h1: "Errors ?P = []" "assignCols ?P = []" "assignArgs ?P = []"
    and h4: "table ?P = Some exampleTable"
    by (simp_all add: examplePlan_def)
  have cm: "colMap ?P = [?idMap, ?nameMap]"
    by (simp add: examplePlan_def exampleColMap_def standardDialect_def)
  have h5: "fieldMapForPointer (colMap ?P) (Ptr 24) = Inr ?nameMap"
    by (simp add: cm fieldMapForPointer_def nameColumn_def)
  have h7: "fieldMapForPointer (colMap ?P) (Ptr 16) = Inr ?idMap"
    by (simp add: cm fieldMapForPointer_def idColumn_def)
  have h6: "resolvesPlain (colMap ?P) (Ptr 16)"
    by (simp add: resolvesPlain_def h7)
  have T: "QuotedTableForQuery (dbDialect ?P) (SchemaName exampleTable) (TableName exampleTable)
             = quoteIdent ''t''"
    by (simp add: examplePlan_def standardDialect_def exampleTable_def)
  have h8: "quotedTable ?idMap
             = QuotedTableForQuery (dbDialect ?P) (SchemaName exampleTable) (TableName exampleTable)"
    by (simp add: T)
  obtain p1 p3 where
    a: "Assign ?P (Ptr 24) (StrV ''x'') = Inr p1"
    and e: "plan_Equal (plan_Where p1 []) (Ptr 16) (IntV 5) = Inr p3"
    and u: "UpdateStatement (Suc 0) p3 = Inr ?st"
    and up: "Update (Suc 0) okTransport p3 = execStatement okTransport p3 ?st"
    using Assign_Where_Equal_Update[OF h1 h4 h5 h6 h7 h8, of 0 okTransport]
    unfolding T by (auto simp: BindVarPlaceholder_def)
  have d0: "dbDialect ?P = standardDialect" by (simp add: examplePlan_def)
  have d3: "dbDialect p3 = standardDialect"
    using plan_Equal_dialect[OF e] plan_Where_dialect[of p1 "[]"] Assign_dialect[OF a] d0
    by simp
  have dec: "decimal (Suc 0) = ''1''" "decimal (Suc (Suc 0)) = ''2''"
    by code_simp+
  have bv: "bindVars p3 ?st = [''$1'', ''$2'']"
    by (simp add: bindVars_def d3 standardDialect_def dec upt_rec)
  have ex: "execStatement okTransport p3 ?st
           = (Inr 1,
              [(''UPDATE '' @ quoteIdent ''t'' @ '' SET '' @ quoteIdent ''name''
                  @ ''=$1 WHERE '' @ quoteIdent ''t'' @ ''.'' @ quoteIdent ''id'' @ '' = $2'',
                [StrV ''x'', IntV 5])])"
    unfolding execStatement_def bv
    by (simp add: okTransport_def Statement_Query_def quoteIdent_def BindVarPlaceholder_def
        Replace1.simps)
  show ?thesis
    using Query_example[of standardDialect] a e u up ex by auto
qed


end
